theory Spec2Isabelle
  imports Main "HOL-Library.Sublist"
begin

section \<open>Values that arrive in a request body\<close>

text \<open>
  The handlers read fields of \<open>req.body\<close>, which \<open>express.json\<close> has parsed. A field
  that the schema declares as a scalar is modelled by the JSON scalars together with
  JavaScript's \<open>undefined\<close> for an absent field; numbers are integers. Structured parts
  of the body (\<open>selectionPath\<close>, \<open>clientInfo\<close>, \<open>requirements\<close>) are records of such
  fields. For \<open>requestType\<close>, which decides the branch that \<open>createRequest\<close> takes, an
  object or an array in the place of the scalar is modelled too (\<open>jval\<close> below); for
  the other fields it is outside the model.
\<close>

datatype jv = JUndefined | JNull | JBool bool | JNum int | JStr string

text \<open>JavaScript truthiness, as used by \<open>if (adminNote)\<close>, \<open>!note\<close>, \<open>!assignedTo\<close>.\<close>

fun truthy :: "jv \<Rightarrow> bool" where
  "truthy JUndefined = False"
| "truthy JNull = False"
| "truthy (JBool b) = b"
| "truthy (JNum n) = (n \<noteq> 0)"
| "truthy (JStr s) = (s \<noteq> [])"

text \<open>\<open>Array.prototype.includes\<close> on an array of string literals: only an equal string is found.\<close>

fun array_includes :: "string list \<Rightarrow> jv \<Rightarrow> bool" where
  "array_includes xs (JStr s) = (s \<in> set xs)"
| "array_includes xs _ = False"

text \<open>Decimal rendering of a number, as \<open>String(n)\<close> and string concatenation do.\<close>

fun digits :: "nat \<Rightarrow> string" where
  "digits n = (if n < 10 then [''0123456789'' ! n]
               else digits (n div 10) @ [''0123456789'' ! (n mod 10)])"

definition show_int :: "int \<Rightarrow> string" where
  "show_int i = (if i < 0 then CHR ''-'' # digits (nat (- i)) else digits (nat i))"

text \<open>
  The cast of a body value to the schema type \<open>String\<close>: \<open>undefined\<close> and \<open>null\<close> leave
  the path unset, every other scalar is rendered as a string.
\<close>

fun cast_string :: "jv \<Rightarrow> string option" where
  "cast_string JUndefined = None"
| "cast_string JNull = None"
| "cast_string (JBool b) = Some (if b then ''true'' else ''false'')"
| "cast_string (JNum n) = Some (show_int n)"
| "cast_string (JStr s) = Some s"

definition is_space :: "char \<Rightarrow> bool" where
  "is_space c = (c \<in> set [CHR '' '', CHR 0x09, CHR 0x0A, CHR 0x0B, CHR 0x0C, CHR 0x0D])"

definition trim :: "string \<Rightarrow> string" where
  "trim s = rev (dropWhile is_space (rev (dropWhile is_space s)))"

definition is_hex :: "char \<Rightarrow> bool" where
  "is_hex c = (c \<in> set ''0123456789abcdefABCDEF'')"

text \<open>The textual form of an \<open>ObjectId\<close>: twenty-four hexadecimal digits.\<close>

definition is_object_id :: "string \<Rightarrow> bool" where
  "is_object_id s = (length s = 24 \<and> list_all is_hex s)"

text \<open>
  The cast of a body value to \<open>ObjectId\<close>: the left component tells whether the cast
  failed (a \<open>CastError\<close> on that path, reported when the document is validated).
\<close>

fun cast_object_id :: "jv \<Rightarrow> bool \<times> string option" where
  "cast_object_id JUndefined = (False, None)"
| "cast_object_id JNull = (False, None)"
| "cast_object_id (JStr s) = (if is_object_id s then (False, Some s) else (True, None))"
| "cast_object_id _ = (True, None)"

text \<open>A body value that may also be an object (its fields, in order) or an array.\<close>

datatype jval = Scalar jv | JObject "(string \<times> jv) list" | JArray "jv list"

fun truthy_value :: "jval \<Rightarrow> bool" where
  "truthy_value (Scalar v) = truthy v"
| "truthy_value (JObject fs) = True"
| "truthy_value (JArray xs) = True"

text \<open>
  The String cast on such a value: an object with a non-empty string \<open>_id\<close> is taken
  for a document and cast to that \<open>_id\<close>; any other object and every array fail the cast.
  The left component tells whether the cast failed.
\<close>

fun cast_string_value :: "jval \<Rightarrow> bool \<times> string option" where
  "cast_string_value (Scalar v) = (False, cast_string v)"
| "cast_string_value (JObject fs) =
     (case map_of fs ''_id'' of
        Some (JStr s) \<Rightarrow> (if s \<noteq> [] then (False, Some s) else (True, None))
      | _ \<Rightarrow> (True, None))"
| "cast_string_value (JArray xs) = (True, None)"


section \<open>The ServiceRequest document (models/ServiceRequest.js)\<close>

record selection_path =
  selectedCategory :: "string option"
  selectedService :: "string option"
  selectedTemplate :: "string option"
  selectedCombo :: "string option"

record client_info =
  fullName :: "string option"
  email :: "string option"
  phone :: "string option"
  businessName :: "string option"
  industry :: "string option"

record custom_field =
  fieldName :: string
  fieldLabel :: string
  fieldValue :: string
  fieldType :: string

record requirements =
  businessDescription :: "string option"
  preferred :: "string list"
  avoid :: "string list"
  tone :: "string option"
  additionalNotes :: "string option"
  customFields :: "custom_field list"

text \<open>An entry of \<open>adminNotes\<close>: \<open>{note, addedBy, addedAt}\<close>.\<close>

record admin_note =
  note_text :: "string option"
  addedBy :: "string option"
  addedAt :: nat

record deliverable =
  fileName :: string
  fileUrl :: string
  publicId :: string
  deliveredAt :: nat

text \<open>
  The document. \<open>oid\<close> is the storage key \<open>_id\<close>, \<open>requestId\<close> the public tracking
  identifier, \<open>createdAt\<close> and \<open>updatedAt\<close> the paths of the \<open>timestamps\<close> option,
  \<open>version\<close> the version key \<open>__v\<close>. The type of \<open>selectionPath\<close> is a parameter: the
  stored document holds the four ids, a populated one what \<open>populate\<close> has put in their
  place. The virtual \<open>id\<close>, a copy of \<open>_id\<close>, is left out.
\<close>

record 'sp request_doc =
  oid :: string
  requestId :: string
  selectionPath :: 'sp
  requestType :: "string option"
  clientInfo :: client_info
  requirements :: requirements
  status :: string
  priority :: string
  estimatedDelivery :: "nat option"
  actualDelivery :: "nat option"
  adminNotes :: "admin_note list"
  assignedTo :: "string option"
  quotedAmount :: "int option"
  finalAmount :: "int option"
  currency :: string
  deliverables :: "deliverable list"
  createdAt :: nat
  updatedAt :: nat
  version :: nat

type_synonym service_request = "selection_path request_doc"

definition validStatuses :: "string list" where
  "validStatuses = [''submitted'', ''reviewing'', ''in-progress'', ''revision'',
                    ''completed'', ''delivered'', ''cancelled'']"

definition validPriorities :: "string list" where
  "validPriorities = [''low'', ''medium'', ''high'', ''urgent'']"

definition requestTypes :: "string list" where
  "requestTypes = [''service'', ''combo'']"

definition tones :: "string list" where
  "tones = [''professional'', ''casual'', ''fun'', ''elegant'', ''modern'', ''traditional'']"

subsection \<open>The validators declared by the schema\<close>

text \<open>\<open>required\<close> on a String path: the value is set and not the empty string.\<close>

fun required_string :: "string option \<Rightarrow> bool" where
  "required_string None = False"
| "required_string (Some s) = (s \<noteq> [])"

text \<open>\<open>enum\<close>, \<open>maxlength\<close> and \<open>match\<close> accept an unset path; \<open>match\<close> also accepts \<open>''''\<close>.\<close>

fun enum_ok :: "string list \<Rightarrow> string option \<Rightarrow> bool" where
  "enum_ok xs None = True"
| "enum_ok xs (Some s) = (s \<in> set xs)"

fun maxlength_ok :: "nat \<Rightarrow> string option \<Rightarrow> bool" where
  "maxlength_ok n None = True"
| "maxlength_ok n (Some s) = (length s \<le> n)"

text \<open>
  \<open>/\<^verbatim>\<open>\S+@\S+\.\S+\<close>/\<close>, unanchored: somewhere an \<open>@\<close> follows a non-space character and is
  followed by a run of non-space characters that has a dot strictly inside it.
\<close>

definition dot_inside :: "string \<Rightarrow> bool" where
  "dot_inside run = (CHR ''.'' \<in> set (butlast (tl run)))"

fun email_scan :: "char \<Rightarrow> string \<Rightarrow> bool" where
  "email_scan prev [] = False"
| "email_scan prev (c # cs) =
     ((c = CHR ''@'' \<and> \<not> is_space prev \<and> dot_inside (takeWhile (\<lambda>x. \<not> is_space x) cs))
      \<or> email_scan c cs)"

fun email_regex :: "string \<Rightarrow> bool" where
  "email_regex [] = False"
| "email_regex (c # cs) = email_scan c cs"

definition is_digit :: "char \<Rightarrow> bool" where
  "is_digit c = (c \<in> set ''0123456789'')"

text \<open>\<open>/^[6-9]\d{9}$/\<close>\<close>

fun phone_regex :: "string \<Rightarrow> bool" where
  "phone_regex [] = False"
| "phone_regex (c # cs) = (c \<in> set ''6789'' \<and> length cs = 9 \<and> list_all is_digit cs)"

fun match_ok :: "(string \<Rightarrow> bool) \<Rightarrow> string option \<Rightarrow> bool" where
  "match_ok re None = True"
| "match_ok re (Some s) = (s = [] \<or> re s)"

text \<open>
  The paths of a document that fail validation, in schema order. \<open>selectedService\<close> and
  \<open>selectedCombo\<close> are required by a function of \<open>this.requestType\<close>.
\<close>

definition schema_errors :: "service_request \<Rightarrow> string list" where
  "schema_errors d =
     (if selectedCategory (selectionPath d) = None then [''selectionPath.selectedCategory''] else []) @
     (if requestType d = Some ''service'' \<and> selectedService (selectionPath d) = None
        then [''selectionPath.selectedService''] else []) @
     (if requestType d = Some ''combo'' \<and> selectedCombo (selectionPath d) = None
        then [''selectionPath.selectedCombo''] else []) @
     (if required_string (requestType d) \<and> enum_ok requestTypes (requestType d)
        then [] else [''requestType'']) @
     (if required_string (fullName (clientInfo d)) \<and> maxlength_ok 100 (fullName (clientInfo d))
        then [] else [''clientInfo.fullName'']) @
     (if required_string (email (clientInfo d)) \<and> match_ok email_regex (email (clientInfo d))
        then [] else [''clientInfo.email'']) @
     (if required_string (phone (clientInfo d)) \<and> match_ok phone_regex (phone (clientInfo d))
        then [] else [''clientInfo.phone'']) @
     (if maxlength_ok 1000 (businessDescription (requirements d))
        then [] else [''requirements.businessDescription'']) @
     (if enum_ok tones (tone (requirements d)) then [] else [''requirements.tone'']) @
     (if maxlength_ok 2000 (additionalNotes (requirements d))
        then [] else [''requirements.additionalNotes'']) @
     (if status d \<in> set validStatuses then [] else [''status'']) @
     (if priority d \<in> set validPriorities then [] else [''priority''])"


section \<open>Errors, responses and the world the handlers act on\<close>

datatype js_error =
    TypeError string
  | ValidationError "string list"
  | CastError string
  | MongoError string
  | MailError string

datatype log_entry =
    ConsoleLog string
  | ConsoleError string js_error
  | ConsoleErrorText string "string option"

text \<open>The JSON answer of a handler: \<open>res.status(code).json({success, message, data, error})\<close>.\<close>

record 'd response =
  code :: nat
  success :: bool
  message :: "string option"
  data :: "'d option"
  error :: "js_error option"

text \<open>What \<open>sendStatusUpdateEmail\<close> is called with, and what it gives back.\<close>

datatype gateway_call =
  StatusUpdateEmail (clientEmail: "string option") (clientName: "string option")
    (callRequestId: string) (callStatus: string) (callAdminNote: jv)

record email_result =
  er_success :: bool
  er_messageId :: "string option"
  er_error :: "string option"

datatype gateway_outcome = Returned email_result | Threw js_error

text \<open>
  The world: the ServiceRequest collection in insertion order, the calls made to the
  Notification Gateway, and the console.
\<close>

record world =
  requests :: "service_request list"
  gateway_calls :: "gateway_call list"
  console :: "log_entry list"

datatype kind = Category | Service | Template | Combo

record catalog_entry =
  title :: string
  slug :: string
  isActive :: bool

text \<open>
  What a call depends on besides the world: the behaviour of the imported
  \<open>sendStatusUpdateEmail\<close>, the clock, whether the database answers, the Catalog Store,
  and the values drawn for a new document (\<open>_id\<close> and the random suffix of \<open>requestId\<close>).
\<close>

record env =
  gateway :: "gateway_call \<Rightarrow> gateway_outcome"
  now :: nat
  db_up :: bool
  catalog :: "kind \<Rightarrow> string \<Rightarrow> catalog_entry option"
  new_oid :: string
  random_suffix :: string

definition log :: "log_entry \<Rightarrow> world \<Rightarrow> world" where
  "log l w = w\<lparr>console := console w @ [l]\<rparr>"

text \<open>The \<open>catch (error)\<close> block that closes every handler.\<close>

definition caught :: "string \<Rightarrow> string \<Rightarrow> js_error \<Rightarrow> world \<Rightarrow> world \<times> 'd response" where
  "caught label msg err w =
     (log (ConsoleError label err) w,
      \<lparr>code = 500, success = False, message = Some msg, data = None, error = Some err\<rparr>)"

abbreviation not_found :: "'d response" where
  "not_found \<equiv> \<lparr>code = 404, success = False, message = Some ''Service request not found'',
                data = None, error = None\<rparr>"

definition bad_request :: "string \<Rightarrow> 'd response" where
  "bad_request msg = \<lparr>code = 400, success = False, message = Some msg, data = None, error = None\<rparr>"

definition ok :: "string option \<Rightarrow> 'd \<Rightarrow> 'd response" where
  "ok msg d = \<lparr>code = 200, success = True, message = msg, data = Some d, error = None\<rparr>"


section \<open>The Request Store\<close>

text \<open>\<open>findById\<close>: a malformed id is a \<open>CastError\<close>; otherwise the document with that \<open>_id\<close>.\<close>

definition findById :: "env \<Rightarrow> world \<Rightarrow> string \<Rightarrow> js_error + service_request option" where
  "findById e w i =
     (if \<not> is_object_id i then Inl (CastError ''_id'')
      else if \<not> db_up e then Inl (MongoError ''connection'')
      else Inr (find (\<lambda>r. oid r = i) (requests w)))"

fun replace_first :: "service_request \<Rightarrow> service_request list \<Rightarrow> service_request list" where
  "replace_first d [] = []"
| "replace_first d (r # rs) = (if oid r = oid d then d # rs else r # replace_first d rs)"

text \<open>
  \<open>doc.save()\<close> of a document that was loaded from the store: the document is validated
  and then written back under its \<open>_id\<close>.
\<close>

definition save :: "env \<Rightarrow> service_request \<Rightarrow> world \<Rightarrow> js_error + world" where
  "save e d w =
     (if schema_errors d \<noteq> [] then Inl (ValidationError (schema_errors d))
      else if \<not> db_up e then Inl (MongoError ''connection'')
      else Inr (w\<lparr>requests := replace_first d (requests w)\<rparr>))"

text \<open>
  \<open>findByIdAndUpdate(id, update, {new: true})\<close>: one atomic update that returns the
  updated document. \<open>check\<close> is the validator run on the updated path when
  \<open>runValidators\<close> is set. With \<open>timestamps\<close> the update also sets \<open>updatedAt\<close>; the
  version key is left alone.
\<close>

definition findByIdAndUpdate ::
  "env \<Rightarrow> world \<Rightarrow> string \<Rightarrow> (service_request \<Rightarrow> service_request) \<Rightarrow> (service_request \<Rightarrow> string list)
     \<Rightarrow> js_error + (service_request option \<times> world)" where
  "findByIdAndUpdate e w i upd check =
     (if \<not> is_object_id i then Inl (CastError ''_id'')
      else if \<not> db_up e then Inl (MongoError ''connection'')
      else case find (\<lambda>r. oid r = i) (requests w) of
             None \<Rightarrow> Inr (None, w)
           | Some r \<Rightarrow>
               (if check (upd r) \<noteq> [] then Inl (ValidationError (check (upd r)))
                else Inr (Some ((upd r)\<lparr>updatedAt := now e\<rparr>),
                          w\<lparr>requests := replace_first ((upd r)\<lparr>updatedAt := now e\<rparr>) (requests w)\<rparr>)))"


section \<open>Status transitions\<close>

text \<open>
  What \<open>save()\<close> of a loaded document adds to the changes made to it: when a path was
  modified the \<open>timestamps\<close> hook sets \<open>updatedAt\<close>, and a push onto an array
  increments the version key. A document without a modified path is not written.
\<close>

definition stamp :: "env \<Rightarrow> bool \<Rightarrow> bool \<Rightarrow> service_request \<Rightarrow> service_request" where
  "stamp e modified pushed d =
     (if modified
      then d\<lparr>updatedAt := now e, version := (if pushed then version d + 1 else version d)\<rparr>
      else d)"

text \<open>
  The instance method \<open>updateStatus\<close> of the schema: sets the status, pushes a note when
  \<open>adminNote\<close> is truthy, and saves. \<open>set_status\<close> is the document that results: the two
  assignments, and the bookkeeping of \<open>save()\<close> (assigning the status it already has does
  not modify the document).
\<close>

definition push_note :: "jv \<Rightarrow> string option \<Rightarrow> nat \<Rightarrow> service_request \<Rightarrow> service_request" where
  "push_note n by t d =
     d\<lparr>adminNotes := adminNotes d @ [\<lparr>note_text = cast_string n, addedBy = by, addedAt = t\<rparr>]\<rparr>"

definition set_status :: "env \<Rightarrow> service_request \<Rightarrow> string \<Rightarrow> jv \<Rightarrow> service_request" where
  "set_status e this newStatus adminNote =
     (let d1 = this\<lparr>status := newStatus\<rparr>;
          d2 = (if truthy adminNote then push_note adminNote (Some ''Admin'') (now e) d1 else d1)
      in stamp e (newStatus \<noteq> status this \<or> truthy adminNote) (truthy adminNote) d2)"

definition updateStatus ::
  "env \<Rightarrow> service_request \<Rightarrow> string \<Rightarrow> jv \<Rightarrow> world \<Rightarrow> js_error + (service_request \<times> world)" where
  "updateStatus e this newStatus adminNote w =
     (let d2 = set_status e this newStatus adminNote
      in case save e d2 w of Inl err \<Rightarrow> Inl err | Inr w' \<Rightarrow> Inr (d2, w'))"

text \<open>
  The notification block shared by \<open>updateRequestStatus\<close> and \<open>deleteRequest\<close>: the
  gateway is called inside its own \<open>try\<close>; whatever it returns or throws is only logged.
\<close>

fun show_opt :: "string option \<Rightarrow> string" where
  "show_opt None = ''undefined''"
| "show_opt (Some s) = s"

definition log_outcome :: "string \<Rightarrow> string \<Rightarrow> service_request \<Rightarrow> gateway_outcome \<Rightarrow> log_entry" where
  "log_outcome sent failed request out =
     (case out of
        Threw err \<Rightarrow> ConsoleError ''Email sending error:'' err
      | Returned r \<Rightarrow>
          (if er_success r then ConsoleLog (sent @ show_opt (email (clientInfo request)))
           else ConsoleErrorText failed (er_error r)))"

definition notify :: "env \<Rightarrow> string \<Rightarrow> string \<Rightarrow> service_request \<Rightarrow> string \<Rightarrow> jv \<Rightarrow> world \<Rightarrow> world" where
  "notify e sent failed request st adminNote w =
     (let call = StatusUpdateEmail (email (clientInfo request)) (fullName (clientInfo request))
                   (requestId request) st adminNote
      in log (log_outcome sent failed request (gateway e call))
           (w\<lparr>gateway_calls := gateway_calls w @ [call]\<rparr>))"

text \<open>A gateway call has failed when it threw or returned \<open>{success: false}\<close>.\<close>

definition gateway_failed :: "gateway_outcome \<Rightarrow> bool" where
  "gateway_failed out = (case out of Threw err \<Rightarrow> True | Returned r \<Rightarrow> \<not> er_success r)"

fun is_error_entry :: "log_entry \<Rightarrow> bool" where
  "is_error_entry (ConsoleLog s) = False"
| "is_error_entry (ConsoleError s err) = True"
| "is_error_entry (ConsoleErrorText s m) = True"

fun the_string :: "jv \<Rightarrow> string" where
  "the_string (JStr s) = s"
| "the_string _ = []"

definition updateRequestStatus ::
  "env \<Rightarrow> string \<Rightarrow> jv \<Rightarrow> jv \<Rightarrow> world \<Rightarrow> world \<times> service_request response" where
  "updateRequestStatus e i st adminNote w =
     (if \<not> array_includes validStatuses st then (w, bad_request ''Invalid status provided'')
      else case findById e w i of
        Inl err \<Rightarrow> caught ''Update Request Status Error:'' ''Failed to update request status'' err w
      | Inr None \<Rightarrow> (w, not_found)
      | Inr (Some request) \<Rightarrow>
          (let oldStatus = status request in
           case updateStatus e request (the_string st) adminNote w of
             Inl err \<Rightarrow>
               caught ''Update Request Status Error:'' ''Failed to update request status'' err w
           | Inr (request', w') \<Rightarrow>
               (let w'' = (if oldStatus \<noteq> the_string st
                           then notify e ''Status update email sent to ''
                                  ''Failed to send status update email:'' request'
                                  (the_string st) adminNote w'
                           else w')
                in (w'', ok (Some ''Request status updated successfully'') request'))))"


section \<open>The other mutating handlers\<close>

definition updateRequestPriority ::
  "env \<Rightarrow> string \<Rightarrow> jv \<Rightarrow> world \<Rightarrow> world \<times> service_request response" where
  "updateRequestPriority e i p w =
     (if \<not> array_includes validPriorities p then (w, bad_request ''Invalid priority provided'')
      else case findByIdAndUpdate e w i (\<lambda>r. r\<lparr>priority := the_string p\<rparr>)
                  (\<lambda>r. if priority r \<in> set validPriorities then [] else [''priority'']) of
        Inl err \<Rightarrow>
          caught ''Update Request Priority Error:'' ''Failed to update request priority'' err w
      | Inr (None, w') \<Rightarrow> (w', not_found)
      | Inr (Some request, w') \<Rightarrow>
          (w', ok (Some ''Request priority updated successfully'') request))"

text \<open>\<open>const { note, addedBy = "Admin" } = req.body\<close>: the default replaces \<open>undefined\<close> only.\<close>

definition addAdminNote ::
  "env \<Rightarrow> string \<Rightarrow> jv \<Rightarrow> jv \<Rightarrow> world \<Rightarrow> world \<times> service_request response" where
  "addAdminNote e i n by w =
     (let by' = (if by = JUndefined then JStr ''Admin'' else by) in
      if \<not> truthy n then (w, bad_request ''Note is required'')
      else case findById e w i of
        Inl err \<Rightarrow> caught ''Add Admin Note Error:'' ''Failed to add admin note'' err w
      | Inr None \<Rightarrow> (w, not_found)
      | Inr (Some request) \<Rightarrow>
          (let request' = stamp e True True (push_note n (cast_string by') (now e) request) in
           case save e request' w of
             Inl err \<Rightarrow> caught ''Add Admin Note Error:'' ''Failed to add admin note'' err w
           | Inr w' \<Rightarrow> (w', ok (Some ''Admin note added successfully'') request')))"

definition assignRequest ::
  "env \<Rightarrow> string \<Rightarrow> jv \<Rightarrow> world \<Rightarrow> world \<times> service_request response" where
  "assignRequest e i a w =
     (if \<not> truthy a then (w, bad_request ''Assignee name is required'')
      else case findByIdAndUpdate e w i (\<lambda>r. r\<lparr>assignedTo := cast_string a\<rparr>) (\<lambda>r. []) of
        Inl err \<Rightarrow> caught ''Assign Request Error:'' ''Failed to assign request'' err w
      | Inr (None, w') \<Rightarrow> (w', not_found)
      | Inr (Some request, w') \<Rightarrow> (w', ok (Some ''Request assigned successfully'') request))"

text \<open>
  \<open>deleteRequest\<close>, the handler of \<open>DELETE /admin/:id\<close>: the status is set to
  \<open>cancelled\<close> by one update without validators, and the gateway is called with four
  arguments, so \<open>adminNote\<close> is \<open>undefined\<close>.
\<close>

definition deleteRequest :: "env \<Rightarrow> string \<Rightarrow> world \<Rightarrow> world \<times> service_request response" where
  "deleteRequest e i w =
     (case findByIdAndUpdate e w i (\<lambda>r. r\<lparr>status := ''cancelled''\<rparr>) (\<lambda>r. []) of
        Inl err \<Rightarrow> caught ''Delete Request Error:'' ''Failed to cancel service request'' err w
      | Inr (None, w') \<Rightarrow> (w', not_found)
      | Inr (Some request, w') \<Rightarrow>
          (notify e ''Cancellation email sent to '' ''Failed to send cancellation email:''
             request ''cancelled'' JUndefined w',
           ok (Some ''Service request cancelled successfully'') request))"


section \<open>Creation\<close>

record selection_input =
  in_selectedCategory :: jv
  in_selectedService :: jv
  in_selectedTemplate :: jv
  in_selectedCombo :: jv

record client_input =
  in_fullName :: jv
  in_email :: jv
  in_phone :: jv
  in_businessName :: jv
  in_industry :: jv

record requirements_input =
  in_businessDescription :: jv
  in_preferred :: "string list"
  in_avoid :: "string list"
  in_tone :: jv
  in_additionalNotes :: jv
  in_customFields :: "custom_field list"

text \<open>
  \<open>req.body\<close> of a submission. \<open>None\<close> stands for a part that is \<open>undefined\<close> or
  \<open>null\<close>: reading a property of it throws a \<open>TypeError\<close>.
\<close>

record create_body =
  body_selectionPath :: "selection_input option"
  body_requestType :: jval
  body_clientInfo :: "client_input option"
  body_requirements :: "requirements_input option"

definition cast_selection :: "selection_input option \<Rightarrow> string list \<times> selection_path" where
  "cast_selection sp =
     (case sp of
        None \<Rightarrow> ([], \<lparr>selectedCategory = None, selectedService = None,
                       selectedTemplate = None, selectedCombo = None\<rparr>)
      | Some s \<Rightarrow>
          (let c = cast_object_id (in_selectedCategory s);
               v = cast_object_id (in_selectedService s);
               t = cast_object_id (in_selectedTemplate s);
               b = cast_object_id (in_selectedCombo s)
           in ((if fst c then [''selectionPath.selectedCategory''] else []) @
               (if fst v then [''selectionPath.selectedService''] else []) @
               (if fst t then [''selectionPath.selectedTemplate''] else []) @
               (if fst b then [''selectionPath.selectedCombo''] else []),
               \<lparr>selectedCategory = snd c, selectedService = snd v,
                selectedTemplate = snd t, selectedCombo = snd b\<rparr>)))"

definition cast_client :: "client_input option \<Rightarrow> client_info" where
  "cast_client ci =
     (case ci of
        None \<Rightarrow> \<lparr>fullName = None, email = None, phone = None, businessName = None, industry = None\<rparr>
      | Some c \<Rightarrow>
          \<lparr>fullName = map_option trim (cast_string (in_fullName c)),
           email = cast_string (in_email c),
           phone = cast_string (in_phone c),
           businessName = map_option trim (cast_string (in_businessName c)),
           industry = map_option trim (cast_string (in_industry c))\<rparr>)"

definition cast_requirements :: "requirements_input option \<Rightarrow> requirements" where
  "cast_requirements ri =
     (case ri of
        None \<Rightarrow> \<lparr>businessDescription = None, preferred = [], avoid = [], tone = None,
                  additionalNotes = None, customFields = []\<rparr>
      | Some r \<Rightarrow>
          \<lparr>businessDescription = cast_string (in_businessDescription r),
           preferred = in_preferred r, avoid = in_avoid r,
           tone = cast_string (in_tone r),
           additionalNotes = cast_string (in_additionalNotes r),
           customFields = in_customFields r\<rparr>)"

text \<open>
  \<open>new ServiceRequest({selectionPath, requestType, clientInfo, requirements})\<close>: only
  these four parts of the body reach the document; every other path takes its schema
  default, the timestamps are set by the first save, and the version key starts at 0.
  The first component lists the paths whose cast failed.
\<close>

definition new_ServiceRequest :: "env \<Rightarrow> create_body \<Rightarrow> string list \<times> service_request" where
  "new_ServiceRequest e b =
     (fst (cast_selection (body_selectionPath b)) @
        (if fst (cast_string_value (body_requestType b)) then [''requestType''] else []),
      \<lparr>oid = new_oid e,
       requestId = ''REQ-'' @ digits (now e) @ ''-'' @ random_suffix e,
       selectionPath = snd (cast_selection (body_selectionPath b)),
       requestType = snd (cast_string_value (body_requestType b)),
       clientInfo = cast_client (body_clientInfo b),
       requirements = cast_requirements (body_requirements b),
       status = ''submitted'',
       priority = ''medium'',
       estimatedDelivery = None,
       actualDelivery = None,
       adminNotes = [],
       assignedTo = None,
       quotedAmount = None,
       finalAmount = None,
       currency = ''INR'',
       deliverables = [],
       createdAt = now e,
       updatedAt = now e,
       version = 0\<rparr>)"

text \<open>
  \<open>save()\<close> of a new document: validation (cast failures included) comes first, then the
  insert, which the unique indexes on \<open>_id\<close> and \<open>requestId\<close> can refuse.
\<close>

definition save_new :: "env \<Rightarrow> string list \<Rightarrow> service_request \<Rightarrow> world \<Rightarrow> js_error + world" where
  "save_new e cast_errs d w =
     (if cast_errs @ schema_errors d \<noteq> [] then Inl (ValidationError (cast_errs @ schema_errors d))
      else if \<not> db_up e then Inl (MongoError ''connection'')
      else if oid d \<in> set (map oid (requests w)) \<or> requestId d \<in> set (map requestId (requests w))
        then Inl (MongoError ''E11000 duplicate key'')
      else Inr (w\<lparr>requests := requests w @ [d]\<rparr>))"

text \<open>
  \<open>populate\<close> of one reference path with a field selection: an unset path stays unset,
  a reference without a catalog entry becomes \<open>null\<close>, otherwise the selected fields.
\<close>

datatype populated =
    Unset
  | Dangling
  | Resolved (ref_id: string) (ref_title: string) (ref_slug: "string option")

definition populate_ref :: "env \<Rightarrow> kind \<Rightarrow> bool \<Rightarrow> string option \<Rightarrow> populated" where
  "populate_ref e k with_slug r =
     (case r of
        None \<Rightarrow> Unset
      | Some i \<Rightarrow>
          (case catalog e k i of
             None \<Rightarrow> Dangling
           | Some c \<Rightarrow> Resolved i (title c) (if with_slug then Some (slug c) else None)))"

text \<open>
  \<open>populate\<close> of the four reference paths overwrites them: the populated document has
  the populated values where the stored one has the ids.
\<close>

record populated_selection =
  popCategory :: populated
  popService :: populated
  popTemplate :: populated
  popCombo :: populated

type_synonym populated_request = "populated_selection request_doc"

definition populate :: "env \<Rightarrow> bool \<Rightarrow> service_request \<Rightarrow> populated_request" where
  "populate e with_slug d =
     \<lparr>oid = oid d,
      requestId = requestId d,
      selectionPath =
        \<lparr>popCategory = populate_ref e Category with_slug (selectedCategory (selectionPath d)),
         popService = populate_ref e Service with_slug (selectedService (selectionPath d)),
         popTemplate = populate_ref e Template with_slug (selectedTemplate (selectionPath d)),
         popCombo = populate_ref e Combo with_slug (selectedCombo (selectionPath d))\<rparr>,
      requestType = requestType d,
      clientInfo = clientInfo d,
      requirements = requirements d,
      status = status d,
      priority = priority d,
      estimatedDelivery = estimatedDelivery d,
      actualDelivery = actualDelivery d,
      adminNotes = adminNotes d,
      assignedTo = assignedTo d,
      quotedAmount = quotedAmount d,
      finalAmount = finalAmount d,
      currency = currency d,
      deliverables = deliverables d,
      createdAt = createdAt d,
      updatedAt = updatedAt d,
      version = version d\<rparr>"

text \<open>The stored reference and the populated value of a reference path, by kind.\<close>

fun selected :: "kind \<Rightarrow> selection_path \<Rightarrow> string option" where
  "selected Category sp = selectedCategory sp"
| "selected Service sp = selectedService sp"
| "selected Template sp = selectedTemplate sp"
| "selected Combo sp = selectedCombo sp"

fun populated_at :: "kind \<Rightarrow> populated_selection \<Rightarrow> populated" where
  "populated_at Category ps = popCategory ps"
| "populated_at Service ps = popService ps"
| "populated_at Template ps = popTemplate ps"
| "populated_at Combo ps = popCombo ps"

text \<open>
  The selection-path check at the head of \<open>createRequest\<close>: \<open>Inl\<close> when reading
  \<open>selectionPath\<close> throws, \<open>Inr (Some msg)\<close> for the 400 answer, \<open>Inr None\<close> to go on.
\<close>

definition selection_check :: "create_body \<Rightarrow> js_error + string option" where
  "selection_check b =
     (if body_requestType b = Scalar (JStr ''service'') then
        (case body_selectionPath b of
           None \<Rightarrow> Inl (TypeError ''Cannot read properties of undefined'')
         | Some sp \<Rightarrow>
             (if \<not> truthy (in_selectedCategory sp) \<or> \<not> truthy (in_selectedService sp)
              then Inr (Some ''Category and Service selection is required for service requests'')
              else Inr None))
      else if body_requestType b = Scalar (JStr ''combo'') then
        (case body_selectionPath b of
           None \<Rightarrow> Inl (TypeError ''Cannot read properties of undefined'')
         | Some sp \<Rightarrow>
             (if \<not> truthy (in_selectedCombo sp)
              then Inr (Some ''Combo selection is required for combo requests'')
              else Inr None))
      else Inr None)"

definition createRequest :: "env \<Rightarrow> create_body \<Rightarrow> world \<Rightarrow> world \<times> populated_request response" where
  "createRequest e b w =
     (case selection_check b of
        Inl err \<Rightarrow> caught ''Create Request Error:'' ''Failed to submit service request'' err w
      | Inr (Some msg) \<Rightarrow> (w, bad_request msg)
      | Inr None \<Rightarrow>
          (let newRequest = snd (new_ServiceRequest e b) in
           case save_new e (fst (new_ServiceRequest e b)) newRequest w of
             Inl err \<Rightarrow> caught ''Create Request Error:'' ''Failed to submit service request'' err w
           | Inr w' \<Rightarrow>
               (w', \<lparr>code = 201, success = True,
                     message = Some ''Service request submitted successfully'',
                     data = Some (populate e True newRequest), error = None\<rparr>)))"


section \<open>Public tracking\<close>

text \<open>
  The populated document as \<open>select("-adminNotes")\<close> returns it: every path but
  \<open>adminNotes\<close>, the timestamps and the version key included.
\<close>

record tracked_request =
  tr_oid :: string
  tr_requestId :: string
  tr_selectionPath :: populated_selection
  tr_requestType :: "string option"
  tr_clientInfo :: client_info
  tr_requirements :: requirements
  tr_status :: string
  tr_priority :: string
  tr_estimatedDelivery :: "nat option"
  tr_actualDelivery :: "nat option"
  tr_assignedTo :: "string option"
  tr_quotedAmount :: "int option"
  tr_finalAmount :: "int option"
  tr_currency :: string
  tr_deliverables :: "deliverable list"
  tr_createdAt :: nat
  tr_updatedAt :: nat
  tr_version :: nat

definition select_without_adminNotes :: "populated_request \<Rightarrow> tracked_request" where
  "select_without_adminNotes p =
     \<lparr>tr_oid = oid p,
      tr_requestId = requestId p,
      tr_selectionPath = selectionPath p,
      tr_requestType = requestType p,
      tr_clientInfo = clientInfo p,
      tr_requirements = requirements p,
      tr_status = status p,
      tr_priority = priority p,
      tr_estimatedDelivery = estimatedDelivery p,
      tr_actualDelivery = actualDelivery p,
      tr_assignedTo = assignedTo p,
      tr_quotedAmount = quotedAmount p,
      tr_finalAmount = finalAmount p,
      tr_currency = currency p,
      tr_deliverables = deliverables p,
      tr_createdAt = createdAt p,
      tr_updatedAt = updatedAt p,
      tr_version = version p\<rparr>"

text \<open>\<open>findOne({ requestId })\<close>: the first document whose public identifier is the one asked for.\<close>

definition findOne_requestId :: "env \<Rightarrow> world \<Rightarrow> string \<Rightarrow> js_error + service_request option" where
  "findOne_requestId e w rid =
     (if \<not> db_up e then Inl (MongoError ''connection'')
      else Inr (find (\<lambda>r. requestId r = rid) (requests w)))"

definition getRequestByRequestId ::
  "env \<Rightarrow> string \<Rightarrow> world \<Rightarrow> world \<times> tracked_request response" where
  "getRequestByRequestId e rid w =
     (case findOne_requestId e w rid of
        Inl err \<Rightarrow>
          caught ''Get Request By Request ID Error:'' ''Failed to fetch service request'' err w
      | Inr None \<Rightarrow> (w, not_found)
      | Inr (Some request) \<Rightarrow>
          (w, ok None (select_without_adminNotes (populate e False request))))"


section \<open>The Notification Gateway (utils/email.js)\<close>

text \<open>
  The message handed to \<open>transporter.sendMail\<close>. The HTML body of the template is left
  out: no property below depends on it.
\<close>

record mail_options =
  mail_to :: "string option"
  mail_subject :: string

text \<open>The subject that \<open>getEmailTemplate\<close> chooses for a status.\<close>

definition getEmailTemplate_subject :: "string \<Rightarrow> string \<Rightarrow> string" where
  "getEmailTemplate_subject st rid =
     ''Service Request '' @ rid @
       (if st = ''reviewing'' then '' - Under Review''
        else if st = ''in-progress'' then '' - Work Started''
        else if st = ''revision'' then '' - Revision Required''
        else if st = ''completed'' then '' - Completed''
        else if st = ''delivered'' then '' - Delivered''
        else if st = ''cancelled'' then '' - Cancelled''
        else '' - Status Updated'')"

text \<open>
  \<open>sendStatusUpdateEmail\<close> over a transport \<open>sendMail\<close> that either throws (\<open>Inl\<close>, the
  error message) or returns a message id: the \<open>catch\<close> turns a throw into
  \<open>{success: false, error}\<close>.
\<close>

definition sendStatusUpdateEmail :: "(mail_options \<Rightarrow> string + string) \<Rightarrow> gateway_call \<Rightarrow> gateway_outcome" where
  "sendStatusUpdateEmail sendMail c =
     (case sendMail \<lparr>mail_to = clientEmail c,
                     mail_subject = getEmailTemplate_subject (callStatus c) (callRequestId c)\<rparr> of
        Inl msg \<Rightarrow> Returned \<lparr>er_success = False, er_messageId = None, er_error = Some msg\<rparr>
      | Inr mid \<Rightarrow> Returned \<lparr>er_success = True, er_messageId = Some mid, er_error = None\<rparr>)"


section \<open>Routes and middleware (routes/serviceRequestRoutes.js)\<close>

record http_request =
  authorization :: "string option"

datatype middleware_result = Next | Rejected nat string

text \<open>The guard installed on every \<open>/admin\<close> route.\<close>

definition isAdmin :: "http_request \<Rightarrow> middleware_result" where
  "isAdmin req = Next"

text \<open>
  \<open>protect\<close> of middleware/auth.js, the guard of the sibling routers, up to the token
  check: \<open>verified\<close> stands for \<open>jwt.verify\<close> together with the lookup of a verified user.
\<close>

fun split_on :: "char \<Rightarrow> string \<Rightarrow> string list" where
  "split_on sep [] = [[]]"
| "split_on sep (c # cs) =
     (if c = sep then [] # split_on sep cs
      else (case split_on sep cs of [] \<Rightarrow> [[c]] | p # ps \<Rightarrow> (c # p) # ps))"

definition bearer_token :: "http_request \<Rightarrow> string option" where
  "bearer_token req =
     (case authorization req of
        None \<Rightarrow> None
      | Some h \<Rightarrow>
          (if take 6 h = ''Bearer'' \<and> 1 < length (split_on CHR '' '' h)
           then Some (split_on CHR '' '' h ! 1) else None))"

definition protect :: "(string \<Rightarrow> bool) \<Rightarrow> http_request \<Rightarrow> middleware_result" where
  "protect verified req =
     (case bearer_token req of
        None \<Rightarrow> Rejected 401 ''Not authorized to access this route.''
      | Some token \<Rightarrow>
          (if token = [] then Rejected 401 ''Not authorized to access this route.''
           else if verified token then Next
           else Rejected 401 ''Not authorized to access this route.''))"

text \<open>A route: the middleware runs first; the handler runs when it calls \<open>next()\<close>.\<close>

definition guarded ::
  "middleware_result \<Rightarrow> (world \<Rightarrow> world \<times> 'd response) \<Rightarrow> world \<Rightarrow> world \<times> 'd response" where
  "guarded m handler w =
     (case m of
        Next \<Rightarrow> handler w
      | Rejected c msg \<Rightarrow>
          (w, \<lparr>code = c, success = False, message = Some msg, data = None, error = None\<rparr>))"

text \<open>\<open>validateServiceRequest\<close>, the middleware of \<open>POST /\<close>.\<close>

definition validateServiceRequest :: "create_body \<Rightarrow> middleware_result" where
  "validateServiceRequest b =
     (case body_clientInfo b of
        None \<Rightarrow> Rejected 400 ''Selection path, request type, and client info are required''
      | Some ci \<Rightarrow>
          (if body_selectionPath b = None \<or> \<not> truthy_value (body_requestType b)
           then Rejected 400 ''Selection path, request type, and client info are required''
           else if \<not> truthy (in_fullName ci) \<or> \<not> truthy (in_email ci) \<or> \<not> truthy (in_phone ci)
           then Rejected 400 ''Client name, email, and phone are required''
           else Next))"

definition post_root :: "env \<Rightarrow> create_body \<Rightarrow> world \<Rightarrow> world \<times> populated_request response" where
  "post_root e b = guarded (validateServiceRequest b) (createRequest e b)"

definition put_admin_status ::
  "env \<Rightarrow> http_request \<Rightarrow> string \<Rightarrow> jv \<Rightarrow> jv \<Rightarrow> world \<Rightarrow> world \<times> service_request response" where
  "put_admin_status e req i st adminNote = guarded (isAdmin req) (updateRequestStatus e i st adminNote)"

definition put_admin_priority ::
  "env \<Rightarrow> http_request \<Rightarrow> string \<Rightarrow> jv \<Rightarrow> world \<Rightarrow> world \<times> service_request response" where
  "put_admin_priority e req i p = guarded (isAdmin req) (updateRequestPriority e i p)"

definition post_admin_notes ::
  "env \<Rightarrow> http_request \<Rightarrow> string \<Rightarrow> jv \<Rightarrow> jv \<Rightarrow> world \<Rightarrow> world \<times> service_request response" where
  "post_admin_notes e req i n by = guarded (isAdmin req) (addAdminNote e i n by)"

definition put_admin_assign ::
  "env \<Rightarrow> http_request \<Rightarrow> string \<Rightarrow> jv \<Rightarrow> world \<Rightarrow> world \<times> service_request response" where
  "put_admin_assign e req i a = guarded (isAdmin req) (assignRequest e i a)"

definition delete_admin ::
  "env \<Rightarrow> http_request \<Rightarrow> string \<Rightarrow> world \<Rightarrow> world \<times> service_request response" where
  "delete_admin e req i = guarded (isAdmin req) (deleteRequest e i)"


text \<open>The admin routes of the router, each with the middleware the router installs on it.\<close>

datatype admin_route =
    GetAdmin
  | GetAdminDashboardStats
  | GetAdminStatus
  | GetAdminById
  | PutAdminStatus
  | PutAdminPriority
  | PostAdminNotes
  | PutAdminAssign
  | DeleteAdmin
  | PostAdminSendEmail
  | GetAdminRecent

fun admin_middleware :: "admin_route \<Rightarrow> http_request \<Rightarrow> middleware_result" where
  "admin_middleware GetAdmin = isAdmin"
| "admin_middleware GetAdminDashboardStats = isAdmin"
| "admin_middleware GetAdminStatus = isAdmin"
| "admin_middleware GetAdminById = isAdmin"
| "admin_middleware PutAdminStatus = isAdmin"
| "admin_middleware PutAdminPriority = isAdmin"
| "admin_middleware PostAdminNotes = isAdmin"
| "admin_middleware PutAdminAssign = isAdmin"
| "admin_middleware DeleteAdmin = isAdmin"
| "admin_middleware PostAdminSendEmail = isAdmin"
| "admin_middleware GetAdminRecent = isAdmin"


section \<open>Lifecycle operations as steps of the store\<close>

datatype operation =
    Create create_body
  | Transition string jv jv
  | UpdatePriority string jv
  | AppendNote string jv jv
  | Assign string jv
  | Cancel string

fun step :: "env \<Rightarrow> operation \<Rightarrow> world \<Rightarrow> world" where
  "step e (Create b) w = fst (createRequest e b w)"
| "step e (Transition i st n) w = fst (updateRequestStatus e i st n w)"
| "step e (UpdatePriority i p) w = fst (updateRequestPriority e i p w)"
| "step e (AppendNote i n by) w = fst (addAdminNote e i n by w)"
| "step e (Assign i a) w = fst (assignRequest e i a w)"
| "step e (Cancel i) w = fst (deleteRequest e i w)"

text \<open>A history: each operation with the environment it ran in.\<close>

fun run :: "(env \<times> operation) list \<Rightarrow> world \<Rightarrow> world" where
  "run [] w = w"
| "run ((e, op) # rest) w = run rest (step e op w)"

text \<open>
  \<open>notes_extended old new\<close>: every document of \<open>old\<close> is still in its place in \<open>new\<close>, under
  the same \<open>_id\<close>, and its \<open>adminNotes\<close> are the earlier ones with entries added at the end.
\<close>

definition notes_extended :: "service_request list \<Rightarrow> service_request list \<Rightarrow> bool" where
  "notes_extended old new =
     (length old \<le> length new \<and>
      list_all2 (\<lambda>r r'. oid r' = oid r \<and> prefix (adminNotes r) (adminNotes r'))
        old (take (length old) new))"


section \<open>Example data\<close>

text \<open>The request of Scenario A, as stored, and worlds that hold it.\<close>

definition jane :: service_request where
  "jane = \<lparr>oid = ''64b7f0c2a1d3e4f5a6b7c8d9'',
      requestId = ''REQ-1700000000000-A1B2'',
      selectionPath = \<lparr>selectedCategory = Some ''aaaaaaaaaaaaaaaaaaaaaaa1'',
         selectedService = Some ''aaaaaaaaaaaaaaaaaaaaaaa2'',
         selectedTemplate = None, selectedCombo = None\<rparr>,
      requestType = Some ''service'',
      clientInfo = \<lparr>fullName = Some ''Jane Doe'', email = Some ''jane@x.com'',
         phone = Some ''9876543210'', businessName = None, industry = None\<rparr>,
      requirements = \<lparr>businessDescription = None, preferred = [], avoid = [], tone = None,
         additionalNotes = None, customFields = []\<rparr>,
      status = ''submitted'', priority = ''medium'',
      estimatedDelivery = None, actualDelivery = None, adminNotes = [],
      assignedTo = None, quotedAmount = None, finalAmount = None,
      currency = ''INR'', deliverables = [],
      createdAt = 1700000000000, updatedAt = 1700000000000, version = 0\<rparr>"

definition jane_body :: create_body where
  "jane_body = \<lparr>body_selectionPath = Some \<lparr>in_selectedCategory = JStr ''aaaaaaaaaaaaaaaaaaaaaaa1'',
         in_selectedService = JStr ''aaaaaaaaaaaaaaaaaaaaaaa2'',
         in_selectedTemplate = JUndefined, in_selectedCombo = JUndefined\<rparr>,
      body_requestType = Scalar (JStr ''service''),
      body_clientInfo = Some \<lparr>in_fullName = JStr ''Jane Doe'', in_email = JStr ''jane@x.com'',
         in_phone = JStr ''9876543210'', in_businessName = JUndefined, in_industry = JUndefined\<rparr>,
      body_requirements = None\<rparr>"

text \<open>An environment whose mail transport refuses every message and whose catalog is empty.\<close>

definition smtp_down :: env where
  "smtp_down = \<lparr>gateway = sendStatusUpdateEmail (\<lambda>m. Inl ''ECONNREFUSED''),
      now = 1700000000000, db_up = True, catalog = (\<lambda>k i. None),
      new_oid = ''64b7f0c2a1d3e4f5a6b7c8d9'', random_suffix = ''A1B2''\<rparr>"

text \<open>An environment whose transport delivers and whose catalog knows Jane's category and service.\<close>

definition catalog_A :: "kind \<Rightarrow> string \<Rightarrow> catalog_entry option" where
  "catalog_A k i =
     (if k = Category \<and> i = ''aaaaaaaaaaaaaaaaaaaaaaa1''
        then Some \<lparr>title = ''Branding'', slug = ''branding'', isActive = True\<rparr>
      else if k = Service \<and> i = ''aaaaaaaaaaaaaaaaaaaaaaa2''
        then Some \<lparr>title = ''Logo Design'', slug = ''logo-design'', isActive = True\<rparr>
      else None)"

definition smtp_up :: env where
  "smtp_up = \<lparr>gateway = sendStatusUpdateEmail (\<lambda>m. Inr ''msg-1''),
      now = 1700000000000, db_up = True, catalog = catalog_A,
      new_oid = ''64b7f0c2a1d3e4f5a6b7c8d9'', random_suffix = ''A1B2''\<rparr>"

text \<open>A catalog in which every entry exists but is inactive.\<close>

definition retired_catalog :: "kind \<Rightarrow> string \<Rightarrow> catalog_entry option" where
  "retired_catalog k i = Some \<lparr>title = ''Retired'', slug = ''retired'', isActive = False\<rparr>"

definition empty_world :: world where
  "empty_world = \<lparr>requests = [], gateway_calls = [], console = []\<rparr>"

definition one_request :: world where
  "one_request = \<lparr>requests = [jane], gateway_calls = [], console = []\<rparr>"

definition jane_in :: "string \<Rightarrow> world" where
  "jane_in st = \<lparr>requests = [jane\<lparr>status := st\<rparr>], gateway_calls = [], console = []\<rparr>"

text \<open>
  Jane's request with three admin notes (Scenario F), and the same request with three
  other notes; the timestamps and the version key are those of three pushes.
\<close>

definition jane_noted :: world where
  "jane_noted = \<lparr>requests = [jane\<lparr>status := ''submitted'', adminNotes :=
        [\<lparr>note_text = Some ''called client'', addedBy = Some ''Admin'', addedAt = 1700000000100\<rparr>,
         \<lparr>note_text = Some ''budget is tight'', addedBy = Some ''Ravi'', addedAt = 1700000000200\<rparr>,
         \<lparr>note_text = Some ''do not discount'', addedBy = Some ''Admin'', addedAt = 1700000000300\<rparr>],
        updatedAt := 1700000000300, version := 3\<rparr>],
      gateway_calls = [], console = []\<rparr>"

definition jane_noted_otherwise :: world where
  "jane_noted_otherwise = \<lparr>requests = [jane\<lparr>status := ''submitted'', adminNotes :=
        [\<lparr>note_text = Some ''ok'', addedBy = Some ''Mina'', addedAt = 1700000000100\<rparr>,
         \<lparr>note_text = Some ''ok'', addedBy = Some ''Mina'', addedAt = 1700000000200\<rparr>,
         \<lparr>note_text = Some ''ok'', addedBy = Some ''Mina'', addedAt = 1700000000300\<rparr>],
        updatedAt := 1700000000300, version := 3\<rparr>],
      gateway_calls = [], console = []\<rparr>"

text \<open>The environment of a later call.\<close>

definition later :: env where
  "later = smtp_up\<lparr>now := 1700000000900\<rparr>"

definition anonymous :: http_request where
  "anonymous = \<lparr>authorization = None\<rparr>"


section \<open>Properties\<close>

declare digits.simps [simp del]

subsection \<open>Validation and the store\<close>

lemma if_single_Nil: "((if c then [x] else []) = []) = (\<not> c)"
  by simp

lemma if_Nil_single: "((if c then [] else [x]) = []) = c"
  by simp

lemma schema_errors_Nil:
  "schema_errors d = [] \<longleftrightarrow>
     selectedCategory (selectionPath d) \<noteq> None \<and>
     \<not> (requestType d = Some ''service'' \<and> selectedService (selectionPath d) = None) \<and>
     \<not> (requestType d = Some ''combo'' \<and> selectedCombo (selectionPath d) = None) \<and>
     required_string (requestType d) \<and> enum_ok requestTypes (requestType d) \<and>
     required_string (fullName (clientInfo d)) \<and> maxlength_ok 100 (fullName (clientInfo d)) \<and>
     required_string (email (clientInfo d)) \<and> match_ok email_regex (email (clientInfo d)) \<and>
     required_string (phone (clientInfo d)) \<and> match_ok phone_regex (phone (clientInfo d)) \<and>
     maxlength_ok 1000 (businessDescription (requirements d)) \<and>
     enum_ok tones (tone (requirements d)) \<and>
     maxlength_ok 2000 (additionalNotes (requirements d)) \<and>
     status d \<in> set validStatuses \<and> priority d \<in> set validPriorities"
  unfolding schema_errors_def by (simp only: append_is_Nil_conv if_single_Nil if_Nil_single) blast


lemma schema_errors_set_status:
  "schema_errors r = [] \<Longrightarrow> s \<in> set validStatuses \<Longrightarrow> schema_errors (set_status e r s n) = []"
  by (simp add: schema_errors_Nil set_status_def push_note_def stamp_def Let_def)

lemma oid_set_status: "oid (set_status e r s n) = oid r"
  by (simp add: set_status_def push_note_def stamp_def Let_def)

lemma status_set_status: "status (set_status e r s n) = s"
  by (simp add: set_status_def push_note_def stamp_def Let_def)

lemma clientInfo_set_status: "clientInfo (set_status e r s n) = clientInfo r"
  by (simp add: set_status_def push_note_def stamp_def Let_def)

lemma requestId_set_status: "requestId (set_status e r s n) = requestId r"
  by (simp add: set_status_def push_note_def stamp_def Let_def)

lemma find_oid: "find (\<lambda>x. oid x = i) rs = Some r \<Longrightarrow> oid r = i"
  by (induction rs) (auto split: if_splits)

lemma find_replace_first:
  "find (\<lambda>x. oid x = i) rs = Some r \<Longrightarrow> oid d = i \<Longrightarrow>
     find (\<lambda>x. oid x = i) (replace_first d rs) = Some d"
  by (induction rs) (auto split: if_splits)

lemma findById_Some:
  "findById e w i = Inr (Some r) \<longleftrightarrow>
     is_object_id i \<and> db_up e \<and> find (\<lambda>x. oid x = i) (requests w) = Some r"
  by (simp add: findById_def)

lemma updateStatus_ok:
  assumes "schema_errors r = []" "s \<in> set validStatuses" "db_up e"
  shows "updateStatus e r s n w =
           Inr (set_status e r s n, w\<lparr>requests := replace_first (set_status e r s n) (requests w)\<rparr>)"
  using assms by (simp add: updateStatus_def save_def schema_errors_set_status Let_def)

subsection \<open>The notification block\<close>

lemma requests_notify: "requests (notify e a b r s n w) = requests w"
  by (simp add: notify_def log_def Let_def)

lemma gateway_calls_notify:
  "gateway_calls (notify e a b r s n w) =
     gateway_calls w @ [StatusUpdateEmail (email (clientInfo r)) (fullName (clientInfo r))
                          (requestId r) s n]"
  by (simp add: notify_def log_def Let_def)

lemma console_notify:
  "console (notify e a b r s n w) =
     console w @ [log_outcome a b r (gateway e (StatusUpdateEmail (email (clientInfo r))
                    (fullName (clientInfo r)) (requestId r) s n))]"
  by (simp add: notify_def log_def Let_def)

lemma failed_outcome_is_error: "gateway_failed out \<Longrightarrow> is_error_entry (log_outcome a b r out)"
  by (cases out) (simp_all add: gateway_failed_def log_outcome_def)

text \<open>\<open>sendStatusUpdateEmail\<close> never throws; over a transport that throws it reports a failure.\<close>

lemma sendStatusUpdateEmail_returns: "\<exists>r. sendStatusUpdateEmail t c = Returned r"
  by (simp add: sendStatusUpdateEmail_def split: sum.splits)

lemma sendStatusUpdateEmail_failed:
  "gateway_failed (sendStatusUpdateEmail (\<lambda>m. Inl msg) c)"
  by (simp add: sendStatusUpdateEmail_def gateway_failed_def)

subsection \<open>Transitions\<close>

text \<open>What \<open>updateRequestStatus\<close> does on a stored, schema-valid request and a known status.\<close>

lemma updateRequestStatus_found:
  assumes f: "findById e w i = Inr (Some r)" and v: "schema_errors r = []"
    and s: "s \<in> set validStatuses"
  shows "updateRequestStatus e i (JStr s) n w =
           ((if status r \<noteq> s
             then notify e ''Status update email sent to '' ''Failed to send status update email:''
                    (set_status e r s n) s n
                    (w\<lparr>requests := replace_first (set_status e r s n) (requests w)\<rparr>)
             else w\<lparr>requests := replace_first (set_status e r s n) (requests w)\<rparr>),
            ok (Some ''Request status updated successfully'') (set_status e r s n))"
proof -
  from f have up: "db_up e" by (simp add: findById_Some)
  show ?thesis
    using f s by (simp add: updateRequestStatus_def updateStatus_ok [OF v s up] Let_def)
qed

lemma jane_found:
  "findById smtp_down (jane_in st) ''64b7f0c2a1d3e4f5a6b7c8d9'' = Inr (Some (jane\<lparr>status := st\<rparr>))"
  by (simp add: findById_def is_object_id_def is_hex_def smtp_down_def jane_in_def jane_def)

lemma submitted_valid: "''submitted'' \<in> set validStatuses"
  by (simp add: validStatuses_def)

lemma jane_valid: "st \<in> set validStatuses \<Longrightarrow> schema_errors (jane\<lparr>status := st\<rparr>) = []"
  by (simp add: schema_errors_Nil jane_def requestTypes_def validPriorities_def
        tones_def is_space_def dot_inside_def is_digit_def)

text \<open>
  C1. A transition of a stored request to a known, different status whose gateway call
  throws or returns a failure: the answer is still 200 with the updated request, the new
  status is what the store holds afterwards, and the only trace of the failure is one
  error entry on the console.
\<close>

theorem transition_survives_notification_failure:
  assumes "findById e w i = Inr (Some r)" and "schema_errors r = []"
    and "s \<in> set validStatuses" and "status r \<noteq> s"
    and "gateway_failed (gateway e (StatusUpdateEmail (email (clientInfo r))
           (fullName (clientInfo r)) (requestId r) s n))"
  shows "case updateRequestStatus e i (JStr s) n w of (w', res) \<Rightarrow>
           res = ok (Some ''Request status updated successfully'') (set_status e r s n) \<and>
           code res = 200 \<and> success res \<and>
           status (set_status e r s n) = s \<and>
           findById e w' i = Inr (Some (set_status e r s n)) \<and>
           requests w' = replace_first (set_status e r s n) (requests w) \<and>
           (\<exists>l. console w' = console w @ [l] \<and> is_error_entry l)"
proof -
  let ?r' = "set_status e r s n"
  from assms(1) have f: "find (\<lambda>x. oid x = i) (requests w) = Some r"
    and oi: "is_object_id i" and up: "db_up e"
    by (simp_all add: findById_Some)
  have "find (\<lambda>x. oid x = i) (replace_first ?r' (requests w)) = Some ?r'"
    using f find_oid [OF f] by (intro find_replace_first) (simp_all add: oid_set_status)
  then have found: "findById e (notify e a b ?r' s n
      (w\<lparr>requests := replace_first ?r' (requests w)\<rparr>)) i = Inr (Some ?r')" for a b
    using oi up by (simp add: findById_def requests_notify)
  show ?thesis
    using assms(4) assms(5) found
    by (simp add: updateRequestStatus_found [OF assms(1-3)] ok_def status_set_status
          requests_notify console_notify clientInfo_set_status requestId_set_status
          failed_outcome_is_error)
qed

theorem transition_survives_notification_failure_witness:
  "findById smtp_down (jane_in ''submitted'') ''64b7f0c2a1d3e4f5a6b7c8d9''
      = Inr (Some (jane\<lparr>status := ''submitted''\<rparr>)) \<and>
   schema_errors (jane\<lparr>status := ''submitted''\<rparr>) = [] \<and>
   ''reviewing'' \<in> set validStatuses \<and>
   status (jane\<lparr>status := ''submitted''\<rparr>) \<noteq> ''reviewing'' \<and>
   gateway smtp_down (StatusUpdateEmail (Some ''jane@x.com'') (Some ''Jane Doe'')
       ''REQ-1700000000000-A1B2'' ''reviewing'' (JStr ''Looks good''))
     = Returned \<lparr>er_success = False, er_messageId = None, er_error = Some ''ECONNREFUSED''\<rparr> \<and>
   (case updateRequestStatus smtp_down ''64b7f0c2a1d3e4f5a6b7c8d9'' (JStr ''reviewing'')
           (JStr ''Looks good'') (jane_in ''submitted'') of (w', res) \<Rightarrow>
      code res = 200 \<and> success res \<and>
      map_option status (data res) = Some ''reviewing'' \<and>
      map_option status (List.find (\<lambda>x. oid x = ''64b7f0c2a1d3e4f5a6b7c8d9'') (requests w'))
        = Some ''reviewing'' \<and>
      (\<exists>l. console w' = [l] \<and> is_error_entry l))"
proof -
  let ?r = "jane\<lparr>status := ''submitted''\<rparr>"
  have s: "''reviewing'' \<in> set validStatuses" and s0: "''submitted'' \<in> set validStatuses"
    by (simp_all add: validStatuses_def)
  have d: "status ?r \<noteq> ''reviewing''" by simp
  have c: "email (clientInfo ?r) = Some ''jane@x.com'' \<and> fullName (clientInfo ?r) = Some ''Jane Doe''
           \<and> requestId ?r = ''REQ-1700000000000-A1B2''"
    by (simp add: jane_def)
  have g: "gateway smtp_down (StatusUpdateEmail (Some ''jane@x.com'') (Some ''Jane Doe'')
       ''REQ-1700000000000-A1B2'' ''reviewing'' (JStr ''Looks good''))
     = Returned \<lparr>er_success = False, er_messageId = None, er_error = Some ''ECONNREFUSED''\<rparr>"
    by (simp add: smtp_down_def sendStatusUpdateEmail_def)
  have gf: "gateway_failed (gateway smtp_down (StatusUpdateEmail (email (clientInfo ?r))
           (fullName (clientInfo ?r)) (requestId ?r) ''reviewing'' (JStr ''Looks good'')))"
    using c g by (simp add: gateway_failed_def)
  have e: "console (jane_in ''submitted'') = []" by (simp add: jane_in_def)
  show ?thesis
    using transition_survives_notification_failure [OF jane_found jane_valid [OF s0] s d gf]
      jane_found [of "''submitted''"] jane_valid [OF s0] s d g e
    by (auto simp: findById_Some ok_def split: prod.splits)
qed





subsection \<open>Cancellation\<close>

lemma jane_found_up:
  "findById smtp_up (jane_in st) ''64b7f0c2a1d3e4f5a6b7c8d9'' = Inr (Some (jane\<lparr>status := st\<rparr>))"
  by (simp add: findById_def is_object_id_def is_hex_def smtp_up_def jane_in_def jane_def)

lemma findByIdAndUpdate_found:
  assumes "findById e w i = Inr (Some r)" and "check (upd r) = []"
  shows "findByIdAndUpdate e w i upd check =
           Inr (Some ((upd r)\<lparr>updatedAt := now e\<rparr>),
                w\<lparr>requests := replace_first ((upd r)\<lparr>updatedAt := now e\<rparr>) (requests w)\<rparr>)"
  using assms by (simp add: findByIdAndUpdate_def findById_Some)

lemma deleteRequest_found:
  assumes "findById e w i = Inr (Some r)"
  shows "deleteRequest e i w =
           (notify e ''Cancellation email sent to '' ''Failed to send cancellation email:''
              (r\<lparr>status := ''cancelled'', updatedAt := now e\<rparr>) ''cancelled'' JUndefined
              (w\<lparr>requests :=
                   replace_first (r\<lparr>status := ''cancelled'', updatedAt := now e\<rparr>) (requests w)\<rparr>),
            ok (Some ''Service request cancelled successfully'')
              (r\<lparr>status := ''cancelled'', updatedAt := now e\<rparr>))"
  by (simp add: deleteRequest_def findByIdAndUpdate_found [OF assms])

lemma set_status_no_note:
  "set_status e r s JUndefined = stamp e (s \<noteq> status r) False (r\<lparr>status := s\<rparr>)"
  by (simp add: set_status_def)

lemma map_replace_first:
  assumes "\<And>x. oid (f x) = oid x"
  shows "map f (replace_first d rs) = replace_first (f d) (map f rs)"
  by (induction rs) (simp_all add: assms)

lemma cancelled_valid: "''cancelled'' \<in> set validStatuses"
  by (simp add: validStatuses_def)

text \<open>
  Up to \<open>updatedAt\<close>, which the update of \<open>deleteRequest\<close> always sets and \<open>save()\<close>
  sets only on a modified document, cancelling stores what a transition to \<open>cancelled\<close>
  without a note stores.
\<close>

lemma cancel_persists_like_transition:
  assumes "findById e w i = Inr (Some r)" and "schema_errors r = []"
  shows "map (\<lambda>x. x\<lparr>updatedAt := 0\<rparr>) (requests (fst (deleteRequest e i w))) =
           map (\<lambda>x. x\<lparr>updatedAt := 0\<rparr>)
             (requests (fst (updateRequestStatus e i (JStr ''cancelled'') JUndefined w)))"
proof -
  have "(r\<lparr>status := ''cancelled'', updatedAt := now e\<rparr>)\<lparr>updatedAt := 0\<rparr> =
          (set_status e r ''cancelled'' JUndefined)\<lparr>updatedAt := 0\<rparr>"
    by (cases "status r = ''cancelled''") (simp_all add: set_status_no_note stamp_def)
  then show ?thesis
    by (simp add: deleteRequest_found [OF assms(1)]
          updateRequestStatus_found [OF assms cancelled_valid] requests_notify map_replace_first)
qed

lemma jane_contact:
  "email (clientInfo jane) = Some ''jane@x.com'' \<and> fullName (clientInfo jane) = Some ''Jane Doe''
     \<and> requestId jane = ''REQ-1700000000000-A1B2''"
  by (simp add: jane_def)

text \<open>
  C5. \<open>deleteRequest\<close> and a transition to \<open>cancelled\<close> store the same status, but on a
  request that is already cancelled \<open>deleteRequest\<close> calls the gateway once more, while
  \<open>updateRequestStatus\<close> with status \<open>cancelled\<close> does not call it.
\<close>

theorem cancel_notifies_again:
  "status (jane\<lparr>status := ''cancelled''\<rparr>) = ''cancelled'' \<and>
   gateway_calls (fst (deleteRequest smtp_up ''64b7f0c2a1d3e4f5a6b7c8d9'' (jane_in ''cancelled'')))
     = [StatusUpdateEmail (Some ''jane@x.com'') (Some ''Jane Doe'') ''REQ-1700000000000-A1B2''
          ''cancelled'' JUndefined] \<and>
   gateway_calls (fst (updateRequestStatus smtp_up ''64b7f0c2a1d3e4f5a6b7c8d9'' (JStr ''cancelled'')
       JUndefined (jane_in ''cancelled''))) = [] \<and>
   code (snd (deleteRequest smtp_up ''64b7f0c2a1d3e4f5a6b7c8d9'' (jane_in ''cancelled''))) = 200 \<and>
   code (snd (updateRequestStatus smtp_up ''64b7f0c2a1d3e4f5a6b7c8d9'' (JStr ''cancelled'')
       JUndefined (jane_in ''cancelled''))) = 200 \<and>
   map status (requests (fst (deleteRequest smtp_up ''64b7f0c2a1d3e4f5a6b7c8d9'' (jane_in ''cancelled''))))
     = [''cancelled''] \<and>
   map status (requests (fst (updateRequestStatus smtp_up ''64b7f0c2a1d3e4f5a6b7c8d9''
       (JStr ''cancelled'') JUndefined (jane_in ''cancelled'')))) = [''cancelled'']"
proof -
  have g: "gateway_calls (jane_in ''cancelled'') = []"
    and r: "requests (jane_in ''cancelled'') = [jane\<lparr>status := ''cancelled''\<rparr>]"
    by (simp_all add: jane_in_def)
  show ?thesis
    by (simp add: deleteRequest_found [OF jane_found_up]
          updateRequestStatus_found [OF jane_found_up jane_valid [OF cancelled_valid] cancelled_valid]
          gateway_calls_notify requests_notify g r jane_contact ok_def oid_set_status
          status_set_status)
qed

subsection \<open>Admin routes\<close>

lemma isAdmin_passes: "isAdmin req = Next"
  by (simp add: isAdmin_def)

lemma admin_middleware_passes: "admin_middleware route req = Next"
  by (cases route) (simp_all add: isAdmin_def)

lemma protect_rejects_missing_header: "authorization req = None \<Longrightarrow> \<exists>m. protect v req = Rejected 401 m"
  by (simp add: protect_def bearer_token_def)

text \<open>
  C9. A request without an \<open>Authorization\<close> header passes \<open>isAdmin\<close> and reaches the
  admin handlers: the status update and the cancellation answer 200 and change the store,
  where \<open>protect\<close>, the guard of the sibling routers, answers 401.
\<close>

theorem admin_route_reached_without_credentials:
  "authorization anonymous = None \<and>
   isAdmin anonymous = Next \<and>
   protect (\<lambda>t. True) anonymous = Rejected 401 ''Not authorized to access this route.'' \<and>
   code (snd (put_admin_status smtp_up anonymous ''64b7f0c2a1d3e4f5a6b7c8d9'' (JStr ''cancelled'')
       JUndefined (jane_in ''submitted''))) = 200 \<and>
   map status (requests (fst (put_admin_status smtp_up anonymous ''64b7f0c2a1d3e4f5a6b7c8d9''
       (JStr ''cancelled'') JUndefined (jane_in ''submitted'')))) = [''cancelled''] \<and>
   code (snd (delete_admin smtp_up anonymous ''64b7f0c2a1d3e4f5a6b7c8d9'' (jane_in ''submitted''))) = 200"
proof -
  have s: "''submitted'' \<in> set validStatuses" by (simp add: validStatuses_def)
  have r: "requests (jane_in ''submitted'') = [jane\<lparr>status := ''submitted''\<rparr>]"
    by (simp add: jane_in_def)
  show ?thesis
    by (simp add: put_admin_status_def delete_admin_def guarded_def isAdmin_def anonymous_def
          protect_def bearer_token_def deleteRequest_found [OF jane_found_up]
          updateRequestStatus_found [OF jane_found_up jane_valid [OF s] cancelled_valid]
          requests_notify r ok_def oid_set_status status_set_status)
qed

subsection \<open>Public tracking\<close>

lemma select_ignores_notes:
  "select_without_adminNotes (populate e f (r\<lparr>adminNotes := ns\<rparr>)) =
     select_without_adminNotes (populate e f r)"
  by (simp add: select_without_adminNotes_def populate_def)

lemma find_requestId_hidden:
  "map (\<lambda>r. r\<lparr>adminNotes := []\<rparr>) rs1 = map (\<lambda>r. r\<lparr>adminNotes := []\<rparr>) rs2 \<Longrightarrow>
     map_option (\<lambda>r. r\<lparr>adminNotes := []\<rparr>) (find (\<lambda>r. requestId r = rid) rs1) =
     map_option (\<lambda>r. r\<lparr>adminNotes := []\<rparr>) (find (\<lambda>r. requestId r = rid) rs2)"
proof (induction rs1 arbitrary: rs2)
  case Nil
  then show ?case by simp
next
  case (Cons a rs1)
  then obtain b rs2' where rs2: "rs2 = b # rs2'" by (cases rs2) auto
  with Cons.prems have ab: "a\<lparr>adminNotes := []\<rparr> = b\<lparr>adminNotes := []\<rparr>"
    and rest: "map (\<lambda>r. r\<lparr>adminNotes := []\<rparr>) rs1 = map (\<lambda>r. r\<lparr>adminNotes := []\<rparr>) rs2'"
    by simp_all
  from ab have "requestId (a\<lparr>adminNotes := []\<rparr>) = requestId (b\<lparr>adminNotes := []\<rparr>)" by simp
  then have rid: "requestId a = requestId b" by simp
  show ?case using ab rid Cons.IH [OF rest] by (simp add: rs2)
qed

lemma tracked_of_hidden:
  assumes "map_option (\<lambda>r. r\<lparr>adminNotes := []\<rparr>) x = map_option (\<lambda>r. r\<lparr>adminNotes := []\<rparr>) y"
  shows "map_option (\<lambda>r. select_without_adminNotes (populate e f r)) x =
         map_option (\<lambda>r. select_without_adminNotes (populate e f r)) y"
proof (cases x)
  case None
  with assms show ?thesis by (cases y) simp_all
next
  case (Some a)
  with assms obtain b where y: "y = Some b" and ab: "a\<lparr>adminNotes := []\<rparr> = b\<lparr>adminNotes := []\<rparr>"
    by (cases y) simp_all
  have "select_without_adminNotes (populate e f a)
          = select_without_adminNotes (populate e f (a\<lparr>adminNotes := []\<rparr>))"
    by (simp only: select_ignores_notes)
  also have "\<dots> = select_without_adminNotes (populate e f (b\<lparr>adminNotes := []\<rparr>))"
    by (simp only: ab)
  also have "\<dots> = select_without_adminNotes (populate e f b)"
    by (simp only: select_ignores_notes)
  finally show ?thesis by (simp add: Some y)
qed

lemma getRequestByRequestId_eq:
  "getRequestByRequestId e rid w =
     (if \<not> db_up e
      then caught ''Get Request By Request ID Error:'' ''Failed to fetch service request''
             (MongoError ''connection'') w
      else (w, case map_option (\<lambda>r. select_without_adminNotes (populate e False r))
                      (find (\<lambda>r. requestId r = rid) (requests w)) of
                 None \<Rightarrow> not_found
               | Some t \<Rightarrow> ok None t))"
  by (simp add: getRequestByRequestId_def findOne_requestId_def split: option.splits)

text \<open>
  C6, as stated, fails: the answer carries \<open>updatedAt\<close> and the version key, and a
  pushed note changes both. Here the same lookup is made before and after one call of
  \<open>addAdminNote\<close>, and the two answers differ.
\<close>

lemma jane_found_later:
  "findById later (jane_in st) ''64b7f0c2a1d3e4f5a6b7c8d9'' = Inr (Some (jane\<lparr>status := st\<rparr>))"
  by (simp add: findById_def is_object_id_def is_hex_def later_def smtp_up_def jane_in_def jane_def)

lemma addAdminNote_found:
  assumes "findById e w i = Inr (Some r)" and "schema_errors r = []" and "truthy n"
  shows "addAdminNote e i n JUndefined w =
           (w\<lparr>requests := replace_first
                 (stamp e True True (push_note n (Some ''Admin'') (now e) r)) (requests w)\<rparr>,
            ok (Some ''Admin note added successfully'')
              (stamp e True True (push_note n (Some ''Admin'') (now e) r)))"
proof -
  have "schema_errors (stamp e True True (push_note n (Some ''Admin'') (now e) r)) = []"
    using assms(2) by (simp add: schema_errors_Nil stamp_def push_note_def)
  moreover from assms(1) have "db_up e" by (simp add: findById_Some)
  ultimately show ?thesis
    using assms(1,3) by (simp add: addAdminNote_def save_def Let_def)
qed

theorem tracking_reveals_note_pushes:
  "map (length \<circ> adminNotes) (requests (jane_in ''submitted'')) = [0] \<and>
   map (length \<circ> adminNotes)
     (requests (fst (addAdminNote later ''64b7f0c2a1d3e4f5a6b7c8d9'' (JStr ''internal only'')
        JUndefined (jane_in ''submitted'')))) = [1] \<and>
   code (snd (getRequestByRequestId later ''REQ-1700000000000-A1B2'' (jane_in ''submitted''))) = 200 \<and>
   code (snd (getRequestByRequestId later ''REQ-1700000000000-A1B2''
        (fst (addAdminNote later ''64b7f0c2a1d3e4f5a6b7c8d9'' (JStr ''internal only'')
           JUndefined (jane_in ''submitted''))))) = 200 \<and>
   map_option tr_version
     (data (snd (getRequestByRequestId later ''REQ-1700000000000-A1B2'' (jane_in ''submitted''))))
     = Some 0 \<and>
   map_option tr_version
     (data (snd (getRequestByRequestId later ''REQ-1700000000000-A1B2''
        (fst (addAdminNote later ''64b7f0c2a1d3e4f5a6b7c8d9'' (JStr ''internal only'')
           JUndefined (jane_in ''submitted''))))))
     = Some 1 \<and>
   map_option tr_updatedAt
     (data (snd (getRequestByRequestId later ''REQ-1700000000000-A1B2'' (jane_in ''submitted''))))
     = Some 1700000000000 \<and>
   map_option tr_updatedAt
     (data (snd (getRequestByRequestId later ''REQ-1700000000000-A1B2''
        (fst (addAdminNote later ''64b7f0c2a1d3e4f5a6b7c8d9'' (JStr ''internal only'')
           JUndefined (jane_in ''submitted''))))))
     = Some 1700000000900 \<and>
   snd (getRequestByRequestId later ''REQ-1700000000000-A1B2'' (jane_in ''submitted''))
     \<noteq> snd (getRequestByRequestId later ''REQ-1700000000000-A1B2''
        (fst (addAdminNote later ''64b7f0c2a1d3e4f5a6b7c8d9'' (JStr ''internal only'')
           JUndefined (jane_in ''submitted''))))"
proof -
  let ?w = "jane_in ''submitted''"
  let ?r' = "stamp later True True
               (push_note (JStr ''internal only'') (Some ''Admin'') (now later)
                  (jane\<lparr>status := ''submitted''\<rparr>))"
  have w: "requests ?w = [jane\<lparr>status := ''submitted''\<rparr>]"
    by (simp add: jane_in_def)
  have add: "fst (addAdminNote later ''64b7f0c2a1d3e4f5a6b7c8d9'' (JStr ''internal only'')
                JUndefined ?w) = ?w\<lparr>requests := [?r']\<rparr>"
    by (simp add: addAdminNote_found [OF jane_found_later jane_valid [OF submitted_valid]] w
          stamp_def push_note_def)
  have up: "db_up later" and nw: "now later = 1700000000900"
    by (simp_all add: later_def smtp_up_def)
  have j: "requestId jane = ''REQ-1700000000000-A1B2''" "version jane = 0"
    "updatedAt jane = 1700000000000" "adminNotes jane = []"
    by (simp_all add: jane_def)
  have t0: "data (snd (getRequestByRequestId later ''REQ-1700000000000-A1B2'' ?w))
              = Some (select_without_adminNotes (populate later False (jane\<lparr>status := ''submitted''\<rparr>)))"
    by (simp add: getRequestByRequestId_eq up w j ok_def)
  have t1: "data (snd (getRequestByRequestId later ''REQ-1700000000000-A1B2'' (?w\<lparr>requests := [?r']\<rparr>)))
              = Some (select_without_adminNotes (populate later False ?r'))"
    by (simp add: getRequestByRequestId_eq up j ok_def stamp_def push_note_def)
  have v0: "tr_version (select_without_adminNotes (populate later False (jane\<lparr>status := ''submitted''\<rparr>))) = 0"
    "tr_updatedAt (select_without_adminNotes (populate later False (jane\<lparr>status := ''submitted''\<rparr>)))
       = 1700000000000"
    by (simp_all add: select_without_adminNotes_def populate_def j)
  have v1: "tr_version (select_without_adminNotes (populate later False ?r')) = 1"
    "tr_updatedAt (select_without_adminNotes (populate later False ?r')) = 1700000000900"
    by (simp_all add: select_without_adminNotes_def populate_def stamp_def push_note_def j nw)
  have ne: "snd (getRequestByRequestId later ''REQ-1700000000000-A1B2'' ?w)
     \<noteq> snd (getRequestByRequestId later ''REQ-1700000000000-A1B2'' (?w\<lparr>requests := [?r']\<rparr>))"
  proof
    assume "snd (getRequestByRequestId later ''REQ-1700000000000-A1B2'' ?w)
      = snd (getRequestByRequestId later ''REQ-1700000000000-A1B2'' (?w\<lparr>requests := [?r']\<rparr>))"
    then have "map_option tr_version (data (snd (getRequestByRequestId later ''REQ-1700000000000-A1B2'' ?w)))
      = map_option tr_version
          (data (snd (getRequestByRequestId later ''REQ-1700000000000-A1B2'' (?w\<lparr>requests := [?r']\<rparr>))))"
      by simp
    then show False by (simp add: t0 t1 v0 v1)
  qed
  have n: "map (length \<circ> adminNotes) (requests ?w) = [0]"
    "map (length \<circ> adminNotes) [?r'] = [1]"
    by (simp_all add: w j stamp_def push_note_def)
  have c0: "code (snd (getRequestByRequestId later ''REQ-1700000000000-A1B2'' ?w)) = 200"
    by (simp add: getRequestByRequestId_eq up w j ok_def)
  have c1: "code (snd (getRequestByRequestId later ''REQ-1700000000000-A1B2''
                         (?w\<lparr>requests := [?r']\<rparr>))) = 200"
    by (simp add: getRequestByRequestId_eq up j ok_def stamp_def push_note_def)
  show ?thesis
    using n ne c0 c1 by (simp add: add t0 t1 v0 v1)
qed

text \<open>
  C6, amended. \<open>getRequestByRequestId\<close> answers with the stored document without its
  \<open>adminNotes\<close> (the data type of the answer has no such field): the answer is the same
  in any two stores whose documents agree on every path but \<open>adminNotes\<close>. The lookup
  succeeds exactly when a stored request has the public \<open>requestId\<close> asked for, and the
  answer carries every other path of that request as stored, the timestamps and the
  version key included, with each of the four references replaced by what \<open>populate\<close>
  finds for it.
\<close>

theorem tracking_shows_document_without_notes:
  assumes "map (\<lambda>r. r\<lparr>adminNotes := []\<rparr>) (requests w1) = map (\<lambda>r. r\<lparr>adminNotes := []\<rparr>) (requests w2)"
  shows "snd (getRequestByRequestId e rid w1) = snd (getRequestByRequestId e rid w2) \<and>
         ((code (snd (getRequestByRequestId e rid w1)) = 200)
            = (db_up e \<and> rid \<in> requestId ` set (requests w1))) \<and>
         (\<forall>r. db_up e \<and> find (\<lambda>r. requestId r = rid) (requests w1) = Some r \<longrightarrow>
            (\<exists>t. snd (getRequestByRequestId e rid w1) = ok None t \<and>
               tr_requestId t = rid \<and> tr_oid t = oid r \<and>
               (\<forall>k. populated_at k (tr_selectionPath t)
                      = populate_ref e k False (selected k (selectionPath r))) \<and>
               tr_requestType t = requestType r \<and>
               tr_clientInfo t = clientInfo r \<and> tr_requirements t = requirements r \<and>
               tr_status t = status r \<and> tr_priority t = priority r \<and>
               tr_estimatedDelivery t = estimatedDelivery r \<and>
               tr_actualDelivery t = actualDelivery r \<and> tr_assignedTo t = assignedTo r \<and>
               tr_quotedAmount t = quotedAmount r \<and> tr_finalAmount t = finalAmount r \<and>
               tr_currency t = currency r \<and> tr_deliverables t = deliverables r \<and>
               tr_createdAt t = createdAt r \<and> tr_updatedAt t = updatedAt r \<and>
               tr_version t = version r))"
proof (intro conjI allI impI)
  show "snd (getRequestByRequestId e rid w1) = snd (getRequestByRequestId e rid w2)"
    using tracked_of_hidden [OF find_requestId_hidden [OF assms], of e False rid]
    by (simp add: getRequestByRequestId_eq caught_def)
next
  have "(find (\<lambda>r. requestId r = rid) (requests w1) \<noteq> None) = (rid \<in> requestId ` set (requests w1))"
    by (auto simp: find_None_iff)
  then show "(code (snd (getRequestByRequestId e rid w1)) = 200)
            = (db_up e \<and> rid \<in> requestId ` set (requests w1))"
    by (auto simp: getRequestByRequestId_eq caught_def ok_def split: option.splits)
next
  fix r
  assume h: "db_up e \<and> find (\<lambda>r. requestId r = rid) (requests w1) = Some r"
  then have rid: "requestId r = rid" by (auto simp: find_Some_iff)
  have pop: "populated_at k (tr_selectionPath (select_without_adminNotes (populate e False r)))
               = populate_ref e k False (selected k (selectionPath r))" for k
    by (cases k) (simp_all add: select_without_adminNotes_def populate_def)
  from h rid pop show "\<exists>t. snd (getRequestByRequestId e rid w1) = ok None t \<and>
               tr_requestId t = rid \<and> tr_oid t = oid r \<and>
               (\<forall>k. populated_at k (tr_selectionPath t)
                      = populate_ref e k False (selected k (selectionPath r))) \<and>
               tr_requestType t = requestType r \<and>
               tr_clientInfo t = clientInfo r \<and> tr_requirements t = requirements r \<and>
               tr_status t = status r \<and> tr_priority t = priority r \<and>
               tr_estimatedDelivery t = estimatedDelivery r \<and>
               tr_actualDelivery t = actualDelivery r \<and> tr_assignedTo t = assignedTo r \<and>
               tr_quotedAmount t = quotedAmount r \<and> tr_finalAmount t = finalAmount r \<and>
               tr_currency t = currency r \<and> tr_deliverables t = deliverables r \<and>
               tr_createdAt t = createdAt r \<and> tr_updatedAt t = updatedAt r \<and>
               tr_version t = version r"
    by (intro exI [where x = "select_without_adminNotes (populate e False r)"])
       (simp add: getRequestByRequestId_eq select_without_adminNotes_def populate_def)
qed

theorem tracking_shows_document_without_notes_witness:
  "map (\<lambda>r. r\<lparr>adminNotes := []\<rparr>) (requests jane_noted)
     = map (\<lambda>r. r\<lparr>adminNotes := []\<rparr>) (requests jane_noted_otherwise) \<and>
   map (\<lambda>r. map note_text (adminNotes r)) (requests jane_noted)
     = [[Some ''called client'', Some ''budget is tight'', Some ''do not discount'']] \<and>
   map (\<lambda>r. map note_text (adminNotes r)) (requests jane_noted_otherwise)
     = [[Some ''ok'', Some ''ok'', Some ''ok'']] \<and>
   snd (getRequestByRequestId smtp_up ''REQ-1700000000000-A1B2'' jane_noted)
     = snd (getRequestByRequestId smtp_up ''REQ-1700000000000-A1B2'' jane_noted_otherwise) \<and>
   code (snd (getRequestByRequestId smtp_up ''REQ-1700000000000-A1B2'' jane_noted)) = 200 \<and>
   code (snd (getRequestByRequestId smtp_up ''64b7f0c2a1d3e4f5a6b7c8d9'' jane_noted)) \<noteq> 200"
proof -
  have h: "map (\<lambda>r. r\<lparr>adminNotes := []\<rparr>) (requests jane_noted)
     = map (\<lambda>r. r\<lparr>adminNotes := []\<rparr>) (requests jane_noted_otherwise)"
    by (simp add: jane_noted_def jane_noted_otherwise_def)
  have n: "map (\<lambda>r. map note_text (adminNotes r)) (requests jane_noted)
     = [[Some ''called client'', Some ''budget is tight'', Some ''do not discount'']]"
    "map (\<lambda>r. map note_text (adminNotes r)) (requests jane_noted_otherwise)
     = [[Some ''ok'', Some ''ok'', Some ''ok'']]"
    by (simp_all add: jane_noted_def jane_noted_otherwise_def)
  have up: "db_up smtp_up" by (simp add: smtp_up_def)
  have ids: "requestId ` set (requests jane_noted) = {''REQ-1700000000000-A1B2''}"
    by (simp add: jane_noted_def jane_def)
  note T = tracking_shows_document_without_notes [OF h, of smtp_up]
  have a: "snd (getRequestByRequestId smtp_up ''REQ-1700000000000-A1B2'' jane_noted)
     = snd (getRequestByRequestId smtp_up ''REQ-1700000000000-A1B2'' jane_noted_otherwise)"
    by (rule T [THEN conjunct1])
  have b: "code (snd (getRequestByRequestId smtp_up ''REQ-1700000000000-A1B2'' jane_noted)) = 200"
    using T [of "''REQ-1700000000000-A1B2''", THEN conjunct2, THEN conjunct1] up ids by simp
  have c: "code (snd (getRequestByRequestId smtp_up ''64b7f0c2a1d3e4f5a6b7c8d9'' jane_noted)) \<noteq> 200"
    using T [of "''64b7f0c2a1d3e4f5a6b7c8d9''", THEN conjunct2, THEN conjunct1] ids by simp
  from h n a b c show ?thesis by (intro conjI)
qed

subsection \<open>Creation\<close>

lemma gateway_calls_caught: "gateway_calls (fst (caught l m err w)) = gateway_calls w"
  by (simp add: caught_def log_def)

lemma requests_caught: "requests (fst (caught l m err w)) = requests w"
  by (simp add: caught_def log_def)

lemma code_caught: "code (snd (caught l m err w)) = 500"
  by (simp add: caught_def)

lemma createRequest_gateway_calls: "gateway_calls (fst (createRequest e b w)) = gateway_calls w"
  by (simp add: createRequest_def save_new_def caught_def log_def bad_request_def Let_def
        split: sum.splits option.splits)

lemma createRequest_201:
  assumes "code (snd (createRequest e b w)) = 201"
  shows "createRequest e b w =
           (w\<lparr>requests := requests w @ [snd (new_ServiceRequest e b)]\<rparr>,
            \<lparr>code = 201, success = True, message = Some ''Service request submitted successfully'',
             data = Some (populate e True (snd (new_ServiceRequest e b))), error = None\<rparr>)"
  using assms
  by (simp add: createRequest_def save_new_def caught_def bad_request_def Let_def
        split: sum.splits option.splits if_splits)

lemma new_ServiceRequest_defaults:
  "status (snd (new_ServiceRequest e b)) = ''submitted'' \<and>
   adminNotes (snd (new_ServiceRequest e b)) = [] \<and>
   priority (snd (new_ServiceRequest e b)) = ''medium''"
  by (simp add: new_ServiceRequest_def)

lemma populate_at:
  "populated_at k (selectionPath (populate e f d)) = populate_ref e k f (selected k (selectionPath d))"
  by (cases k) (simp_all add: populate_def)

lemma populate_ref_cases:
  "populate_ref e k True r =
     (case r of
        None \<Rightarrow> Unset
      | Some i \<Rightarrow>
          (case catalog e k i of
             None \<Rightarrow> Dangling
           | Some c \<Rightarrow> Resolved i (title c) (Some (slug c))))"
  by (simp add: populate_ref_def split: option.splits)

lemma jane_schema_ok: "schema_errors jane = []"
  using jane_valid [OF submitted_valid] by (simp add: jane_def)

lemma new_jane_any:
  assumes "now e = 1700000000000" "new_oid e = ''64b7f0c2a1d3e4f5a6b7c8d9''" "random_suffix e = ''A1B2''"
  shows "new_ServiceRequest e jane_body = ([], jane)"
  using assms
  by (simp add: new_ServiceRequest_def jane_body_def jane_def cast_selection_def
        cast_client_def cast_requirements_def is_object_id_def is_hex_def digits.simps trim_def
        is_space_def)

lemma create_jane_any:
  assumes "now e = 1700000000000" "new_oid e = ''64b7f0c2a1d3e4f5a6b7c8d9''"
    "random_suffix e = ''A1B2''" "db_up e"
  shows "createRequest e jane_body empty_world =
     (empty_world\<lparr>requests := [jane]\<rparr>,
      \<lparr>code = 201, success = True, message = Some ''Service request submitted successfully'',
       data = Some (populate e True jane), error = None\<rparr>)"
proof -
  have "selection_check jane_body = Inr None"
    by (simp add: selection_check_def jane_body_def)
  moreover have "save_new e [] jane empty_world = Inr (empty_world\<lparr>requests := [jane]\<rparr>)"
    using assms(4) by (simp add: save_new_def jane_schema_ok empty_world_def)
  ultimately show ?thesis
    by (simp add: createRequest_def new_jane_any [OF assms(1-3)])
qed

lemma jane_selection:
  "selectedCategory (selectionPath jane) = Some ''aaaaaaaaaaaaaaaaaaaaaaa1'' \<and>
   selectedService (selectionPath jane) = Some ''aaaaaaaaaaaaaaaaaaaaaaa2'' \<and>
   selectedTemplate (selectionPath jane) = None \<and> selectedCombo (selectionPath jane) = None"
  by (simp add: jane_def)

text \<open>
  C7, as stated, fails in its last part: with a catalog that does not hold the category
  and the service of the request, creation answers 201 and the answer carries \<open>null\<close>
  in the place of both references, not a title and a slug.
\<close>

theorem created_request_with_unresolved_references:
  "catalog smtp_down Category ''aaaaaaaaaaaaaaaaaaaaaaa1'' = None \<and>
   catalog smtp_down Service ''aaaaaaaaaaaaaaaaaaaaaaa2'' = None \<and>
   code (snd (createRequest smtp_down jane_body empty_world)) = 201 \<and>
   requests (fst (createRequest smtp_down jane_body empty_world)) = [jane] \<and>
   map_option (popCategory \<circ> selectionPath)
     (data (snd (createRequest smtp_down jane_body empty_world))) = Some Dangling \<and>
   map_option (popService \<circ> selectionPath)
     (data (snd (createRequest smtp_down jane_body empty_world))) = Some Dangling"
proof -
  have a: "createRequest smtp_down jane_body empty_world =
     (empty_world\<lparr>requests := [jane]\<rparr>,
      \<lparr>code = 201, success = True, message = Some ''Service request submitted successfully'',
       data = Some (populate smtp_down True jane), error = None\<rparr>)"
    by (rule create_jane_any) (simp_all add: smtp_down_def)
  have c: "catalog smtp_down k i = None" for k i
    by (simp add: smtp_down_def)
  show ?thesis
    by (simp add: a c populate_def populate_ref_def jane_selection)
qed

text \<open>
  C7, amended. \<open>createRequest\<close> never calls the gateway. When it answers 201, the store
  has gained exactly one request, with status \<open>submitted\<close>, no admin notes and priority
  \<open>medium\<close>, and the answer carries that request with its four reference paths
  populated: a reference that has a catalog entry is resolved to the entry's title and
  slug, a reference without one is \<open>null\<close>, an unset path stays unset.
\<close>

theorem created_request_defaults_and_references:
  "gateway_calls (fst (createRequest e b w)) = gateway_calls w \<and>
   (code (snd (createRequest e b w)) = 201 \<longrightarrow>
      (\<exists>d. requests (fst (createRequest e b w)) = requests w @ [d] \<and>
           status d = ''submitted'' \<and> adminNotes d = [] \<and> priority d = ''medium'' \<and>
           success (snd (createRequest e b w)) \<and>
           data (snd (createRequest e b w)) = Some (populate e True d) \<and>
           status (populate e True d) = ''submitted'' \<and>
           adminNotes (populate e True d) = [] \<and>
           priority (populate e True d) = ''medium'' \<and>
           requestId (populate e True d) = requestId d \<and>
           (\<forall>k. populated_at k (selectionPath (populate e True d)) =
                  (case selected k (selectionPath d) of
                     None \<Rightarrow> Unset
                   | Some i \<Rightarrow>
                       (case catalog e k i of
                          None \<Rightarrow> Dangling
                        | Some c \<Rightarrow> Resolved i (title c) (Some (slug c)))))))"
proof (intro conjI impI)
  show "gateway_calls (fst (createRequest e b w)) = gateway_calls w"
    by (rule createRequest_gateway_calls)
next
  assume c: "code (snd (createRequest e b w)) = 201"
  have p: "status (populate e True d) = status d \<and> adminNotes (populate e True d) = adminNotes d \<and>
           priority (populate e True d) = priority d \<and> requestId (populate e True d) = requestId d" for d
    by (simp add: populate_def)
  show "\<exists>d. requests (fst (createRequest e b w)) = requests w @ [d] \<and>
           status d = ''submitted'' \<and> adminNotes d = [] \<and> priority d = ''medium'' \<and>
           success (snd (createRequest e b w)) \<and>
           data (snd (createRequest e b w)) = Some (populate e True d) \<and>
           status (populate e True d) = ''submitted'' \<and>
           adminNotes (populate e True d) = [] \<and>
           priority (populate e True d) = ''medium'' \<and>
           requestId (populate e True d) = requestId d \<and>
           (\<forall>k. populated_at k (selectionPath (populate e True d)) =
                  (case selected k (selectionPath d) of
                     None \<Rightarrow> Unset
                   | Some i \<Rightarrow>
                       (case catalog e k i of
                          None \<Rightarrow> Dangling
                        | Some c \<Rightarrow> Resolved i (title c) (Some (slug c)))))"
    by (intro exI [where x = "snd (new_ServiceRequest e b)"])
       (simp add: createRequest_201 [OF c] new_ServiceRequest_defaults p populate_at
          populate_ref_cases)
qed

theorem created_request_defaults_and_references_witness:
  "code (snd (createRequest smtp_up jane_body empty_world)) = 201 \<and>
   requests (fst (createRequest smtp_up jane_body empty_world)) = [jane] \<and>
   status jane = ''submitted'' \<and> adminNotes jane = [] \<and> priority jane = ''medium'' \<and>
   gateway_calls (fst (createRequest smtp_up jane_body empty_world)) = [] \<and>
   map_option (\<lambda>p. popCategory (selectionPath p))
       (data (snd (createRequest smtp_up jane_body empty_world)))
     = Some (Resolved ''aaaaaaaaaaaaaaaaaaaaaaa1'' ''Branding'' (Some ''branding'')) \<and>
   map_option (\<lambda>p. popService (selectionPath p))
       (data (snd (createRequest smtp_up jane_body empty_world)))
     = Some (Resolved ''aaaaaaaaaaaaaaaaaaaaaaa2'' ''Logo Design'' (Some ''logo-design'')) \<and>
   map_option (\<lambda>p. popCombo (selectionPath p))
       (data (snd (createRequest smtp_up jane_body empty_world))) = Some Unset"
proof -
  have cj: "createRequest smtp_up jane_body empty_world =
     (empty_world\<lparr>requests := [jane]\<rparr>,
      \<lparr>code = 201, success = True, message = Some ''Service request submitted successfully'',
       data = Some (populate smtp_up True jane), error = None\<rparr>)"
    by (rule create_jane_any) (simp_all add: smtp_up_def)
  have c: "code (snd (createRequest smtp_up jane_body empty_world)) = 201"
    and r: "requests (fst (createRequest smtp_up jane_body empty_world)) = [jane]"
    by (simp_all add: cj)
  have j: "status jane = ''submitted'' \<and> adminNotes jane = [] \<and> priority jane = ''medium''"
    by (simp add: jane_def)
  have cat: "catalog smtp_up Category ''aaaaaaaaaaaaaaaaaaaaaaa1''
               = Some \<lparr>title = ''Branding'', slug = ''branding'', isActive = True\<rparr>"
    "catalog smtp_up Service ''aaaaaaaaaaaaaaaaaaaaaaa2''
               = Some \<lparr>title = ''Logo Design'', slug = ''logo-design'', isActive = True\<rparr>"
    by (simp_all add: smtp_up_def catalog_A_def)
  have e: "gateway_calls empty_world = []" "requests empty_world = []"
    by (simp_all add: empty_world_def)
  from created_request_defaults_and_references [of smtp_up jane_body empty_world] c
  obtain d where d: "requests (fst (createRequest smtp_up jane_body empty_world)) = requests empty_world @ [d]"
    and g: "gateway_calls (fst (createRequest smtp_up jane_body empty_world)) = gateway_calls empty_world"
    and dat: "data (snd (createRequest smtp_up jane_body empty_world)) = Some (populate smtp_up True d)"
    and pk: "\<forall>k. populated_at k (selectionPath (populate smtp_up True d)) =
                  (case selected k (selectionPath d) of
                     None \<Rightarrow> Unset
                   | Some i \<Rightarrow>
                       (case catalog smtp_up k i of
                          None \<Rightarrow> Dangling
                        | Some c \<Rightarrow> Resolved i (title c) (Some (slug c))))"
    by blast
  from d r e have dj: "d = jane" by simp
  from pk [rule_format, of Category] cat dj
  have p1: "popCategory (selectionPath (populate smtp_up True jane))
              = Resolved ''aaaaaaaaaaaaaaaaaaaaaaa1'' ''Branding'' (Some ''branding'')"
    by (simp add: jane_selection)
  from pk [rule_format, of Service] cat dj
  have p2: "popService (selectionPath (populate smtp_up True jane))
              = Resolved ''aaaaaaaaaaaaaaaaaaaaaaa2'' ''Logo Design'' (Some ''logo-design'')"
    by (simp add: jane_selection)
  from pk [rule_format, of Combo] dj
  have p3: "popCombo (selectionPath (populate smtp_up True jane)) = Unset"
    by (simp add: jane_selection)
  show ?thesis using c r j g e dat dj p1 p2 p3 by simp
qed

text \<open>
  C2, as stated, fails: a service request whose category and service are well-formed ids
  without a catalog entry, or with an inactive one, is created and stored.
\<close>

theorem creation_accepts_unknown_and_inactive_references:
  "body_requestType jane_body = Scalar (JStr ''service'') \<and>
   map_option in_selectedCategory (body_selectionPath jane_body) = Some (JStr ''aaaaaaaaaaaaaaaaaaaaaaa1'') \<and>
   map_option in_selectedService (body_selectionPath jane_body) = Some (JStr ''aaaaaaaaaaaaaaaaaaaaaaa2'') \<and>
   catalog smtp_down Category ''aaaaaaaaaaaaaaaaaaaaaaa1'' = None \<and>
   catalog smtp_down Service ''aaaaaaaaaaaaaaaaaaaaaaa2'' = None \<and>
   code (snd (createRequest smtp_down jane_body empty_world)) = 201 \<and>
   requests (fst (createRequest smtp_down jane_body empty_world)) = [jane] \<and>
   map_option isActive (catalog (smtp_down\<lparr>catalog := retired_catalog\<rparr>) Service ''aaaaaaaaaaaaaaaaaaaaaaa2'')
     = Some False \<and>
   code (snd (createRequest (smtp_down\<lparr>catalog := retired_catalog\<rparr>) jane_body empty_world)) = 201 \<and>
   requests (fst (createRequest (smtp_down\<lparr>catalog := retired_catalog\<rparr>) jane_body empty_world)) = [jane]"
proof -
  have a: "createRequest smtp_down jane_body empty_world =
     (empty_world\<lparr>requests := [jane]\<rparr>,
      \<lparr>code = 201, success = True, message = Some ''Service request submitted successfully'',
       data = Some (populate smtp_down True jane), error = None\<rparr>)"
    by (rule create_jane_any) (simp_all add: smtp_down_def)
  have b: "createRequest (smtp_down\<lparr>catalog := retired_catalog\<rparr>) jane_body empty_world =
     (empty_world\<lparr>requests := [jane]\<rparr>,
      \<lparr>code = 201, success = True, message = Some ''Service request submitted successfully'',
       data = Some (populate (smtp_down\<lparr>catalog := retired_catalog\<rparr>) True jane), error = None\<rparr>)"
    by (rule create_jane_any) (simp_all add: smtp_down_def)
  show ?thesis
    by (simp add: a b) (simp add: jane_body_def smtp_down_def retired_catalog_def)
qed

lemma new_ServiceRequest_catalog:
  "new_ServiceRequest (e\<lparr>catalog := c\<rparr>) b = new_ServiceRequest e b"
  by (simp add: new_ServiceRequest_def)

lemma save_new_catalog: "save_new (e\<lparr>catalog := c\<rparr>) errs d w = save_new e errs d w"
  by (simp add: save_new_def)

text \<open>
  C2, amended. For a body with a \<open>selectionPath\<close> object: a service request whose
  \<open>selectedCategory\<close> or \<open>selectedService\<close> is missing, and a combo request whose
  \<open>selectedCombo\<close> is missing, are answered 400 with the message naming the selection, and
  the world is unchanged. Only presence is checked: the catalog has no influence on the
  status code or on the resulting world.
\<close>

theorem selection_presence_only:
  assumes "body_selectionPath b = Some sp"
  shows "(body_requestType b = Scalar (JStr ''service'') \<and>
            (\<not> truthy (in_selectedCategory sp) \<or> \<not> truthy (in_selectedService sp)) \<longrightarrow>
          createRequest e b w =
            (w, bad_request ''Category and Service selection is required for service requests'')) \<and>
         (body_requestType b = Scalar (JStr ''combo'') \<and> \<not> truthy (in_selectedCombo sp) \<longrightarrow>
          createRequest e b w =
            (w, bad_request ''Combo selection is required for combo requests'')) \<and>
         code (bad_request msg :: populated_request response) = 400 \<and>
         code (snd (createRequest (e\<lparr>catalog := c\<rparr>) b w)) = code (snd (createRequest e b w)) \<and>
         fst (createRequest (e\<lparr>catalog := c\<rparr>) b w) = fst (createRequest e b w)"
proof (intro conjI impI)
  assume "body_requestType b = Scalar (JStr ''service'') \<and>
            (\<not> truthy (in_selectedCategory sp) \<or> \<not> truthy (in_selectedService sp))"
  with assms have "selection_check b =
      Inr (Some ''Category and Service selection is required for service requests'')"
    by (auto simp: selection_check_def)
  then show "createRequest e b w =
            (w, bad_request ''Category and Service selection is required for service requests'')"
    by (simp add: createRequest_def)
next
  assume "body_requestType b = Scalar (JStr ''combo'') \<and> \<not> truthy (in_selectedCombo sp)"
  with assms have "selection_check b = Inr (Some ''Combo selection is required for combo requests'')"
    by (auto simp: selection_check_def)
  then show "createRequest e b w = (w, bad_request ''Combo selection is required for combo requests'')"
    by (simp add: createRequest_def)
next
  show "code (bad_request msg :: populated_request response) = 400"
    by (simp add: bad_request_def)
next
  show "code (snd (createRequest (e\<lparr>catalog := c\<rparr>) b w)) = code (snd (createRequest e b w))"
    by (simp add: createRequest_def new_ServiceRequest_catalog save_new_catalog caught_def
          bad_request_def Let_def split: sum.splits option.splits)
next
  show "fst (createRequest (e\<lparr>catalog := c\<rparr>) b w) = fst (createRequest e b w)"
    by (simp add: createRequest_def new_ServiceRequest_catalog save_new_catalog caught_def
          Let_def split: sum.splits option.splits)
qed

theorem selection_presence_only_witness:
  "body_selectionPath (jane_body\<lparr>body_requestType := Scalar (JStr ''combo'')\<rparr>)
     = Some \<lparr>in_selectedCategory = JStr ''aaaaaaaaaaaaaaaaaaaaaaa1'',
         in_selectedService = JStr ''aaaaaaaaaaaaaaaaaaaaaaa2'',
         in_selectedTemplate = JUndefined, in_selectedCombo = JUndefined\<rparr> \<and>
   body_requestType (jane_body\<lparr>body_requestType := Scalar (JStr ''combo'')\<rparr>) = Scalar (JStr ''combo'') \<and>
   createRequest smtp_up (jane_body\<lparr>body_requestType := Scalar (JStr ''combo'')\<rparr>) empty_world
     = (empty_world, bad_request ''Combo selection is required for combo requests'') \<and>
   code (snd (createRequest smtp_up (jane_body\<lparr>body_requestType := Scalar (JStr ''combo'')\<rparr>) empty_world)) = 400"
proof -
  let ?b = "jane_body\<lparr>body_requestType := Scalar (JStr ''combo'')\<rparr>"
  let ?sp = "\<lparr>in_selectedCategory = JStr ''aaaaaaaaaaaaaaaaaaaaaaa1'',
         in_selectedService = JStr ''aaaaaaaaaaaaaaaaaaaaaaa2'',
         in_selectedTemplate = JUndefined, in_selectedCombo = JUndefined\<rparr>"
  have sp: "body_selectionPath ?b = Some ?sp" by (simp add: jane_body_def)
  have t: "body_requestType ?b = Scalar (JStr ''combo'')" by simp
  have m: "\<not> truthy (in_selectedCombo ?sp)" by simp
  note T = selection_presence_only [OF sp, of smtp_up empty_world]
  have r: "createRequest smtp_up ?b empty_world
     = (empty_world, bad_request ''Combo selection is required for combo requests'')"
    using T [THEN conjunct2, THEN conjunct1] t m by blast
  have c: "code (snd (createRequest smtp_up ?b empty_world)) = 400"
    by (simp add: r bad_request_def)
  from sp t r c show ?thesis by (intro conjI)
qed

subsection \<open>Request types outside the enum\<close>

lemma digit_nth: "n < 10 \<Longrightarrow> is_digit (''0123456789'' ! n)"
proof -
  assume "n < 10"
  then have "''0123456789'' ! n \<in> set ''0123456789''"
    by (intro nth_mem) simp
  then show ?thesis by (simp only: is_digit_def)
qed

lemma digits_are_digits: "list_all is_digit (digits n)"
proof (induction n rule: digits.induct)
  case (1 n)
  show ?case
  proof (cases "n < 10")
    case True
    then show ?thesis by (simp add: digits.simps [of n] digit_nth)
  next
    case False
    have "n mod 10 < 10" by simp
    with False "1.IH" show ?thesis
      by (simp add: digits.simps [of n] digit_nth)
  qed
qed

lemma show_int_not_word:
  assumes "c \<in> set s" and "\<not> is_digit c" and "c \<noteq> CHR ''-''"
  shows "show_int i \<noteq> s"
proof
  assume eq: "show_int i = s"
  have "list_all (\<lambda>x. is_digit x \<or> x = CHR ''-'') (show_int i)"
    using digits_are_digits [of "nat i"] digits_are_digits [of "nat (- i)"]
    by (auto simp: show_int_def list_all_iff)
  with eq assms show False by (auto simp: list_all_iff)
qed

lemma cast_string_not_service:
  "v \<noteq> JStr ''service'' \<Longrightarrow> cast_string v \<noteq> Some ''service''"
  by (cases v) (auto simp: show_int_not_word [where c = "CHR ''s''"] is_digit_def)

lemma cast_string_not_combo:
  "v \<noteq> JStr ''combo'' \<Longrightarrow> cast_string v \<noteq> Some ''combo''"
  by (cases v) (auto simp: show_int_not_word [where c = "CHR ''c''"] is_digit_def)

lemma requestType_rejected:
  assumes "requestType d \<noteq> Some ''service''" and "requestType d \<noteq> Some ''combo''"
  shows "''requestType'' \<in> set (schema_errors d)"
proof -
  have "\<not> (required_string (requestType d) \<and> enum_ok requestTypes (requestType d))"
    using assms by (cases "requestType d") (simp_all add: requestTypes_def)
  then show ?thesis by (simp add: schema_errors_def)
qed

lemma scalar_cast_outside_enum:
  assumes "v \<noteq> JStr ''service''" and "v \<noteq> JStr ''combo''"
  shows "snd (cast_string_value (Scalar v)) \<noteq> Some ''service'' \<and>
         snd (cast_string_value (Scalar v)) \<noteq> Some ''combo''"
  using cast_string_not_service [OF assms(1)] cast_string_not_combo [OF assms(2)] by simp

text \<open>
  On the route \<open>POST /\<close> the middleware \<open>validateServiceRequest\<close> runs before the
  handler: a falsy \<open>requestType\<close> is answered 400 there and \<open>createRequest\<close> is not called.
\<close>

lemma post_root_missing_requestType:
  "\<not> truthy_value (body_requestType b) \<Longrightarrow>
     post_root e b w =
       (w, \<lparr>code = 400, success = False,
            message = Some ''Selection path, request type, and client info are required'',
            data = None, error = None\<rparr>)"
  by (simp add: post_root_def guarded_def validateServiceRequest_def split: option.splits)

lemma post_root_passes_to_createRequest:
  "validateServiceRequest b = Next \<Longrightarrow> post_root e b w = createRequest e b w"
  by (simp add: post_root_def guarded_def)

text \<open>
  C10, as stated, fails twice. A \<open>requestType\<close> that is the object \<open>{"_id": "service"}\<close> is
  neither of the two strings, so both selection checks are skipped, but the schema casts it
  to \<open>"service"\<close>: the request is stored and the answer is 201. And on the route a missing
  \<open>requestType\<close> is answered 400 by the middleware, not 500.
\<close>

theorem request_type_object_is_stored_and_missing_is_400:
  "body_requestType (jane_body\<lparr>body_requestType := JObject [(''_id'', JStr ''service'')]\<rparr>)
     \<noteq> Scalar (JStr ''service'') \<and>
   body_requestType (jane_body\<lparr>body_requestType := JObject [(''_id'', JStr ''service'')]\<rparr>)
     \<noteq> Scalar (JStr ''combo'') \<and>
   selection_check (jane_body\<lparr>body_requestType := JObject [(''_id'', JStr ''service'')]\<rparr>)
     = Inr None \<and>
   code (snd (createRequest smtp_up
      (jane_body\<lparr>body_requestType := JObject [(''_id'', JStr ''service'')]\<rparr>) empty_world)) = 201 \<and>
   requests (fst (createRequest smtp_up
      (jane_body\<lparr>body_requestType := JObject [(''_id'', JStr ''service'')]\<rparr>) empty_world)) = [jane] \<and>
   code (snd (post_root smtp_up
      (jane_body\<lparr>body_requestType := JObject [(''_id'', JStr ''service'')]\<rparr>) empty_world)) = 201 \<and>
   code (snd (post_root smtp_up (jane_body\<lparr>body_requestType := Scalar JUndefined\<rparr>) empty_world)) = 400 \<and>
   requests (fst (post_root smtp_up (jane_body\<lparr>body_requestType := Scalar JUndefined\<rparr>) empty_world)) = []"
proof -
  let ?b = "jane_body\<lparr>body_requestType := JObject [(''_id'', JStr ''service'')]\<rparr>"
  have sc: "selection_check ?b = Inr None"
    by (simp add: selection_check_def)
  have nw: "new_ServiceRequest smtp_up ?b = ([], jane)"
    by (simp add: new_ServiceRequest_def smtp_up_def jane_body_def jane_def cast_selection_def
          cast_client_def cast_requirements_def is_object_id_def is_hex_def digits.simps trim_def
          is_space_def)
  have sv: "save_new smtp_up [] jane empty_world = Inr (empty_world\<lparr>requests := [jane]\<rparr>)"
    by (simp add: save_new_def jane_schema_ok smtp_up_def empty_world_def)
  have cr: "createRequest smtp_up ?b empty_world =
     (empty_world\<lparr>requests := [jane]\<rparr>,
      \<lparr>code = 201, success = True, message = Some ''Service request submitted successfully'',
       data = Some (populate smtp_up True jane), error = None\<rparr>)"
    by (simp add: createRequest_def sc nw sv)
  have mw: "validateServiceRequest ?b = Next"
    by (simp add: validateServiceRequest_def jane_body_def)
  have pr: "post_root smtp_up ?b empty_world = createRequest smtp_up ?b empty_world"
    by (rule post_root_passes_to_createRequest [OF mw])
  have ms: "post_root smtp_up (jane_body\<lparr>body_requestType := Scalar JUndefined\<rparr>) empty_world =
       (empty_world, \<lparr>code = 400, success = False,
            message = Some ''Selection path, request type, and client info are required'',
            data = None, error = None\<rparr>)"
    by (rule post_root_missing_requestType) simp
  show ?thesis
    by (simp add: sc cr pr ms) (simp add: empty_world_def)
qed

text \<open>
  C10, amended. A call of \<open>createRequest\<close> whose \<open>requestType\<close>, as the schema's String
  cast reads it, is neither \<open>"service"\<close> nor \<open>"combo"\<close> (an absent one and every scalar
  other than the two strings included) skips both selection checks and is refused by the
  validation that \<open>save\<close> runs, with \<open>requestType\<close> among the failing paths: the handler
  answers 500 with the message \<open>Failed to submit service request\<close>, and the store is
  unchanged. On the route, a falsy \<open>requestType\<close> is answered 400 by the middleware with
  the world unchanged, and a body that passes the middleware gets the handler's answer.
\<close>

theorem request_type_outside_enum_fails_at_save:
  assumes "snd (cast_string_value (body_requestType b)) \<noteq> Some ''service''"
    and "snd (cast_string_value (body_requestType b)) \<noteq> Some ''combo''"
  shows "selection_check b = Inr None \<and>
         (\<exists>errs. ''requestType'' \<in> set errs \<and>
            createRequest e b w =
              caught ''Create Request Error:'' ''Failed to submit service request''
                (ValidationError errs) w) \<and>
         code (snd (createRequest e b w)) = 500 \<and>
         message (snd (createRequest e b w)) = Some ''Failed to submit service request'' \<and>
         requests (fst (createRequest e b w)) = requests w \<and>
         (\<not> truthy_value (body_requestType b) \<longrightarrow>
            post_root e b w =
              (w, \<lparr>code = 400, success = False,
                   message = Some ''Selection path, request type, and client info are required'',
                   data = None, error = None\<rparr>)) \<and>
         (validateServiceRequest b = Next \<longrightarrow> post_root e b w = createRequest e b w) \<and>
         (\<forall>v. v \<noteq> JStr ''service'' \<and> v \<noteq> JStr ''combo'' \<longrightarrow>
            snd (cast_string_value (Scalar v)) \<noteq> Some ''service'' \<and>
            snd (cast_string_value (Scalar v)) \<noteq> Some ''combo'')"
proof -
  let ?d = "snd (new_ServiceRequest e b)"
  let ?errs = "fst (new_ServiceRequest e b) @ schema_errors ?d"
  have sc: "selection_check b = Inr None"
    using assms by (auto simp: selection_check_def)
  have rt: "requestType ?d = snd (cast_string_value (body_requestType b))"
    by (simp add: new_ServiceRequest_def)
  have bad: "''requestType'' \<in> set (schema_errors ?d)"
    by (rule requestType_rejected) (simp_all add: rt assms)
  then have ne: "?errs \<noteq> []" by auto
  have sv: "save_new e (fst (new_ServiceRequest e b)) ?d w = Inl (ValidationError ?errs)"
    using ne by (simp add: save_new_def)
  have cr: "createRequest e b w =
      caught ''Create Request Error:'' ''Failed to submit service request'' (ValidationError ?errs) w"
    by (simp add: createRequest_def sc sv)
  have "''requestType'' \<in> set ?errs" using bad by simp
  with cr have ex: "\<exists>errs. ''requestType'' \<in> set errs \<and>
            createRequest e b w =
              caught ''Create Request Error:'' ''Failed to submit service request''
                (ValidationError errs) w"
    by blast
  have rest: "code (snd (createRequest e b w)) = 500 \<and>
         message (snd (createRequest e b w)) = Some ''Failed to submit service request'' \<and>
         requests (fst (createRequest e b w)) = requests w"
    by (simp add: cr caught_def log_def)
  have route: "(\<not> truthy_value (body_requestType b) \<longrightarrow>
            post_root e b w =
              (w, \<lparr>code = 400, success = False,
                   message = Some ''Selection path, request type, and client info are required'',
                   data = None, error = None\<rparr>)) \<and>
         (validateServiceRequest b = Next \<longrightarrow> post_root e b w = createRequest e b w)"
    by (simp add: post_root_missing_requestType post_root_passes_to_createRequest)
  have scal: "\<forall>v. v \<noteq> JStr ''service'' \<and> v \<noteq> JStr ''combo'' \<longrightarrow>
            snd (cast_string_value (Scalar v)) \<noteq> Some ''service'' \<and>
            snd (cast_string_value (Scalar v)) \<noteq> Some ''combo''"
    using scalar_cast_outside_enum by blast
  from sc ex rest route scal show ?thesis by (intro conjI) simp_all
qed

theorem request_type_outside_enum_fails_at_save_witness:
  "snd (cast_string_value (body_requestType (jane_body\<lparr>body_requestType := Scalar (JStr ''bundle'')\<rparr>)))
     = Some ''bundle'' \<and>
   truthy_value (body_requestType (jane_body\<lparr>body_requestType := Scalar (JStr ''bundle'')\<rparr>)) \<and>
   validateServiceRequest (jane_body\<lparr>body_requestType := Scalar (JStr ''bundle'')\<rparr>) = Next \<and>
   code (snd (post_root smtp_up (jane_body\<lparr>body_requestType := Scalar (JStr ''bundle'')\<rparr>) empty_world))
     = 500 \<and>
   message (snd (createRequest smtp_up (jane_body\<lparr>body_requestType := Scalar (JStr ''bundle'')\<rparr>)
      empty_world)) = Some ''Failed to submit service request'' \<and>
   requests (fst (createRequest smtp_up (jane_body\<lparr>body_requestType := Scalar (JStr ''bundle'')\<rparr>)
      empty_world)) = [] \<and>
   snd (cast_string_value (body_requestType (jane_body\<lparr>body_requestType := Scalar JUndefined\<rparr>)))
     = None \<and>
   \<not> truthy_value (body_requestType (jane_body\<lparr>body_requestType := Scalar JUndefined\<rparr>)) \<and>
   code (snd (createRequest smtp_up (jane_body\<lparr>body_requestType := Scalar JUndefined\<rparr>) empty_world))
     = 500 \<and>
   code (snd (post_root smtp_up (jane_body\<lparr>body_requestType := Scalar JUndefined\<rparr>) empty_world))
     = 400"
proof -
  let ?b = "jane_body\<lparr>body_requestType := Scalar (JStr ''bundle'')\<rparr>"
  let ?u = "jane_body\<lparr>body_requestType := Scalar JUndefined\<rparr>"
  have cb: "snd (cast_string_value (body_requestType ?b)) = Some ''bundle''"
    and cu: "snd (cast_string_value (body_requestType ?u)) = None"
    by simp_all
  have a: "snd (cast_string_value (body_requestType ?b)) \<noteq> Some ''service''"
    and b: "snd (cast_string_value (body_requestType ?b)) \<noteq> Some ''combo''"
    and c: "snd (cast_string_value (body_requestType ?u)) \<noteq> Some ''service''"
    and d: "snd (cast_string_value (body_requestType ?u)) \<noteq> Some ''combo''"
    by simp_all
  have tb: "truthy_value (body_requestType ?b)" and tu: "\<not> truthy_value (body_requestType ?u)"
    by simp_all
  have mw: "validateServiceRequest ?b = Next"
    by (simp add: validateServiceRequest_def jane_body_def)
  have e: "requests empty_world = []" by (simp add: empty_world_def)
  note B = request_type_outside_enum_fails_at_save [OF a b, of smtp_up empty_world]
  note U = request_type_outside_enum_fails_at_save [OF c d, of smtp_up empty_world]
  from B mw have pb: "post_root smtp_up ?b empty_world = createRequest smtp_up ?b empty_world"
    by blast
  from B have rb: "code (snd (createRequest smtp_up ?b empty_world)) = 500"
    "message (snd (createRequest smtp_up ?b empty_world)) = Some ''Failed to submit service request''"
    "requests (fst (createRequest smtp_up ?b empty_world)) = requests empty_world"
    by blast+
  from U have ru: "code (snd (createRequest smtp_up ?u empty_world)) = 500"
    by blast
  from U tu have pu: "code (snd (post_root smtp_up ?u empty_world)) = 400"
    by simp
  from cb cu tb tu mw pb rb ru pu e show ?thesis by simp
qed

subsection \<open>Admin notes over the lifetime of a request\<close>

lemma notes_extended_nth:
  "notes_extended old new \<longleftrightarrow>
     length old \<le> length new \<and>
     (\<forall>k < length old. oid (new ! k) = oid (old ! k) \<and>
        prefix (adminNotes (old ! k)) (adminNotes (new ! k)))"
  by (auto simp: notes_extended_def list_all2_conv_all_nth)

lemma notes_extended_refl: "notes_extended rs rs"
  by (simp add: notes_extended_nth)

lemma notes_extended_trans:
  assumes "notes_extended a b" and "notes_extended b c"
  shows "notes_extended a c"
proof -
  from assms have len: "length a \<le> length b" "length b \<le> length c"
    by (simp_all add: notes_extended_nth)
  have "oid (c ! k) = oid (a ! k) \<and> prefix (adminNotes (a ! k)) (adminNotes (c ! k))"
    if k: "k < length a" for k
  proof -
    from k len have kb: "k < length b" by simp
    from assms(1) k have 1: "oid (b ! k) = oid (a ! k)" "prefix (adminNotes (a ! k)) (adminNotes (b ! k))"
      by (simp_all add: notes_extended_nth)
    from assms(2) kb have 2: "oid (c ! k) = oid (b ! k)" "prefix (adminNotes (b ! k)) (adminNotes (c ! k))"
      by (simp_all add: notes_extended_nth)
    from 1 2 show ?thesis by (auto intro: prefix_order.trans)
  qed
  with len show ?thesis by (simp add: notes_extended_nth)
qed

lemma notes_extended_append: "notes_extended rs (rs @ ds)"
  by (simp add: notes_extended_nth nth_append)

lemma length_replace_first: "length (replace_first d rs) = length rs"
  by (induction rs) simp_all

lemma replace_first_related:
  assumes "find (\<lambda>x. oid x = oid d) rs = Some r" and "prefix (adminNotes r) (adminNotes d)"
  shows "list_all2 (\<lambda>r r'. oid r' = oid r \<and> prefix (adminNotes r) (adminNotes r')) rs (replace_first d rs)"
  using assms
proof (induction rs)
  case Nil
  then show ?case by simp
next
  case (Cons a rs)
  show ?case
  proof (cases "oid a = oid d")
    case True
    with Cons.prems have "a = r" by simp
    with True Cons.prems(2) show ?thesis
      by (simp add: list_all2_refl)
  next
    case False
    with Cons show ?thesis by simp
  qed
qed

lemma notes_extended_replace:
  assumes "find (\<lambda>x. oid x = i) rs = Some r" and "oid d = i"
    and "prefix (adminNotes r) (adminNotes d)"
  shows "notes_extended rs (replace_first d rs)"
  using replace_first_related [of d rs r] assms
  by (simp add: notes_extended_def length_replace_first)

lemma notes_set_status: "prefix (adminNotes r) (adminNotes (set_status e r s n))"
  by (simp add: set_status_def push_note_def stamp_def Let_def)

lemma updateRequestStatus_notes:
  "notes_extended (requests w) (requests (fst (updateRequestStatus e i st n w)))"
proof (cases "findById e w i")
  case (Inl err)
  then show ?thesis
    by (simp add: updateRequestStatus_def requests_caught notes_extended_refl)
next
  case (Inr found)
  show ?thesis
  proof (cases found)
    case None
    with Inr show ?thesis by (simp add: updateRequestStatus_def notes_extended_refl)
  next
    case (Some r)
    with Inr have f: "find (\<lambda>x. oid x = i) (requests w) = Some r"
      by (simp add: findById_Some)
    have "notes_extended (requests w)
            (replace_first (set_status e r (the_string st) n) (requests w))"
      by (rule notes_extended_replace [OF f]) (simp_all add: oid_set_status find_oid [OF f] notes_set_status)
    with Inr Some show ?thesis
      by (simp add: updateRequestStatus_def updateStatus_def save_def requests_caught
            requests_notify notes_extended_refl Let_def)
  qed
qed

lemma addAdminNote_notes:
  "notes_extended (requests w) (requests (fst (addAdminNote e i n b w)))"
proof (cases "findById e w i")
  case (Inl err)
  then show ?thesis
    by (simp add: addAdminNote_def requests_caught notes_extended_refl Let_def)
next
  case (Inr found)
  show ?thesis
  proof (cases found)
    case None
    with Inr show ?thesis by (simp add: addAdminNote_def notes_extended_refl Let_def)
  next
    case (Some r)
    with Inr have f: "find (\<lambda>x. oid x = i) (requests w) = Some r"
      by (simp add: findById_Some)
    have "notes_extended (requests w)
            (replace_first (stamp e True True (push_note n by' t r)) (requests w))" for by' t
      by (rule notes_extended_replace [OF f])
         (simp_all add: push_note_def stamp_def find_oid [OF f])
    with Inr Some show ?thesis
      by (simp add: addAdminNote_def save_def requests_caught notes_extended_refl Let_def)
  qed
qed

lemma findByIdAndUpdate_notes:
  assumes "\<And>r. oid (upd r) = oid r" and "\<And>r. adminNotes (upd r) = adminNotes r"
    and "findByIdAndUpdate e w i upd check = Inr (res, w')"
  shows "notes_extended (requests w) (requests w')"
proof (cases "find (\<lambda>x. oid x = i) (requests w)")
  case None
  with assms(3) show ?thesis
    by (simp add: findByIdAndUpdate_def notes_extended_refl split: if_splits)
next
  case (Some r)
  have "notes_extended (requests w) (replace_first ((upd r)\<lparr>updatedAt := now e\<rparr>) (requests w))"
    by (rule notes_extended_replace [OF Some]) (simp_all add: assms(1,2) find_oid [OF Some])
  with Some assms(3) show ?thesis
    by (auto simp: findByIdAndUpdate_def split: if_splits)
qed

lemma updateRequestPriority_notes:
  "notes_extended (requests w) (requests (fst (updateRequestPriority e i p w)))"
proof (cases "array_includes validPriorities p")
  case False
  then show ?thesis by (simp add: updateRequestPriority_def notes_extended_refl)
next
  case True
  show ?thesis
  proof (cases "findByIdAndUpdate e w i (\<lambda>r. r\<lparr>priority := the_string p\<rparr>)
                  (\<lambda>r. if priority r \<in> set validPriorities then [] else [''priority''])")
    case (Inl err)
    with True show ?thesis
      by (simp add: updateRequestPriority_def requests_caught notes_extended_refl)
  next
    case (Inr pr)
    obtain res w' where pr: "pr = (res, w')" by (cases pr)
    from findByIdAndUpdate_notes [OF _ _ Inr [unfolded pr]]
    have "notes_extended (requests w) (requests w')" by simp
    with True Inr pr show ?thesis
      by (simp add: updateRequestPriority_def split: option.splits)
  qed
qed

lemma assignRequest_notes:
  "notes_extended (requests w) (requests (fst (assignRequest e i a w)))"
proof (cases "truthy a")
  case False
  then show ?thesis by (simp add: assignRequest_def notes_extended_refl)
next
  case True
  show ?thesis
  proof (cases "findByIdAndUpdate e w i (\<lambda>r. r\<lparr>assignedTo := cast_string a\<rparr>) (\<lambda>r. [])")
    case (Inl err)
    with True show ?thesis
      by (simp add: assignRequest_def requests_caught notes_extended_refl)
  next
    case (Inr pr)
    obtain res w' where pr: "pr = (res, w')" by (cases pr)
    from findByIdAndUpdate_notes [OF _ _ Inr [unfolded pr]]
    have "notes_extended (requests w) (requests w')" by simp
    with True Inr pr show ?thesis
      by (simp add: assignRequest_def split: option.splits)
  qed
qed

lemma deleteRequest_notes:
  "notes_extended (requests w) (requests (fst (deleteRequest e i w)))"
proof (cases "findByIdAndUpdate e w i (\<lambda>r. r\<lparr>status := ''cancelled''\<rparr>) (\<lambda>r. [])")
  case (Inl err)
  then show ?thesis
    by (simp add: deleteRequest_def requests_caught notes_extended_refl)
next
  case (Inr pr)
  obtain res w' where pr: "pr = (res, w')" by (cases pr)
  from findByIdAndUpdate_notes [OF _ _ Inr [unfolded pr]]
  have "notes_extended (requests w) (requests w')" by simp
  with Inr pr show ?thesis
    by (simp add: deleteRequest_def requests_notify split: option.splits)
qed

lemma createRequest_notes:
  "notes_extended (requests w) (requests (fst (createRequest e b w)))"
  by (simp add: createRequest_def save_new_def requests_caught notes_extended_refl
        notes_extended_append Let_def split: sum.splits option.splits)

lemma step_notes: "notes_extended (requests w) (requests (step e op w))"
  by (cases op)
     (simp_all add: createRequest_notes updateRequestStatus_notes updateRequestPriority_notes
        addAdminNote_notes assignRequest_notes deleteRequest_notes)

lemma run_notes: "notes_extended (requests w) (requests (run ops w))"
proof (induction ops arbitrary: w)
  case Nil
  show ?case by (simp add: notes_extended_refl)
next
  case (Cons a ops)
  obtain e op where a: "a = (e, op)" by (cases a)
  from step_notes [of w e op] Cons.IH [of "step e op w"]
  show ?case by (simp add: a notes_extended_trans)
qed

text \<open>
  C8. Over any history of lifecycle operations (create, transition with or without a
  note, priority update, note append, assign, cancel, in any environments), every request
  of the store keeps its place and its \<open>_id\<close>, and its \<open>adminNotes\<close> afterwards are the
  earlier list with entries added at the end: nothing is edited, removed or reordered,
  and the length never decreases.
\<close>

theorem admin_notes_append_only:
  "length (requests w) \<le> length (requests (run ops w)) \<and>
   (\<forall>k < length (requests w).
      oid (requests (run ops w) ! k) = oid (requests w ! k) \<and>
      prefix (adminNotes (requests w ! k)) (adminNotes (requests (run ops w) ! k)) \<and>
      length (adminNotes (requests w ! k)) \<le> length (adminNotes (requests (run ops w) ! k)))"
  using run_notes [of w ops] by (auto simp: notes_extended_nth dest: prefix_length_le)

lemma findById_single:
  assumes "is_object_id i" and "db_up e" and "requests w = [r]" and "oid r = i"
  shows "findById e w i = Inr (Some r)"
  using assms by (simp add: findById_def)

lemma history_result:
  "map (\<lambda>r. (status r, map note_text (adminNotes r)))
     (requests (run [(smtp_up, Transition ''64b7f0c2a1d3e4f5a6b7c8d9'' (JStr ''reviewing'') (JStr ''Looks good'')),
                     (smtp_up, AppendNote ''64b7f0c2a1d3e4f5a6b7c8d9'' (JStr ''call back'') JUndefined),
                     (smtp_up, Cancel ''64b7f0c2a1d3e4f5a6b7c8d9'')]
                (jane_in ''submitted'')))
   = [(''cancelled'', [Some ''Looks good'', Some ''call back''])]"
proof -
  let ?i = "''64b7f0c2a1d3e4f5a6b7c8d9''"
  let ?r0 = "jane\<lparr>status := ''submitted''\<rparr>"
  let ?r1 = "set_status smtp_up ?r0 ''reviewing'' (JStr ''Looks good'')"
  let ?r2 = "stamp smtp_up True True (push_note (JStr ''call back'') (Some ''Admin'') (now smtp_up) ?r1)"
  let ?r3 = "?r2\<lparr>status := ''cancelled'', updatedAt := now smtp_up\<rparr>"
  let ?w1 = "fst (updateRequestStatus smtp_up ?i (JStr ''reviewing'') (JStr ''Looks good'')
                    (jane_in ''submitted''))"
  let ?w2 = "fst (addAdminNote smtp_up ?i (JStr ''call back'') JUndefined ?w1)"
  let ?w3 = "fst (deleteRequest smtp_up ?i ?w2)"
  have oi: "is_object_id ?i" by (simp add: is_object_id_def is_hex_def)
  have up: "db_up smtp_up" by (simp add: smtp_up_def)
  have rv: "''reviewing'' \<in> set validStatuses" by (simp add: validStatuses_def)
  have o0: "oid ?r0 = ?i" by (simp add: jane_def)
  have v0: "schema_errors ?r0 = []" by (rule jane_valid [OF submitted_valid])
  have w0: "requests (jane_in ''submitted'') = [?r0]" by (simp add: jane_in_def)
  have w1: "requests ?w1 = [?r1]"
    using o0
    by (simp add: updateRequestStatus_found [OF jane_found_up v0 rv] requests_notify w0
          oid_set_status)
  have o1: "oid ?r1 = ?i" by (simp add: oid_set_status o0)
  have v1: "schema_errors ?r1 = []" by (rule schema_errors_set_status [OF v0 rv])
  have f1: "findById smtp_up ?w1 ?i = Inr (Some ?r1)"
    by (rule findById_single [OF oi up w1 o1])
  have o2: "oid ?r2 = ?i" using o1 by (simp add: stamp_def push_note_def)
  have w2: "requests ?w2 = [?r2]"
    using o1 o2 by (simp add: addAdminNote_found [OF f1 v1] w1)
  have f2: "findById smtp_up ?w2 ?i = Inr (Some ?r2)"
    by (rule findById_single [OF oi up w2 o2])
  have w3: "requests ?w3 = [?r3]"
    using o2 by (simp add: deleteRequest_found [OF f2] requests_notify w2)
  have n1: "map note_text (adminNotes ?r1) = [Some ''Looks good'']"
    by (simp add: set_status_def stamp_def push_note_def jane_def Let_def)
  have n3: "map note_text (adminNotes ?r3) = [Some ''Looks good'', Some ''call back'']"
    using n1 by (simp add: stamp_def push_note_def)
  have "run [(smtp_up, Transition ?i (JStr ''reviewing'') (JStr ''Looks good'')),
             (smtp_up, AppendNote ?i (JStr ''call back'') JUndefined),
             (smtp_up, Cancel ?i)] (jane_in ''submitted'') = ?w3"
    by (simp only: run.simps step.simps)
  then show ?thesis
    using n3 by (simp only: w3) simp
qed

theorem admin_notes_append_only_witness:
  "(0::nat) < length (requests (jane_in ''submitted'')) \<and>
   adminNotes (requests (jane_in ''submitted'') ! 0) = [] \<and>
   prefix (adminNotes (requests (jane_in ''submitted'') ! 0))
     (adminNotes (requests (run
        [(smtp_up, Transition ''64b7f0c2a1d3e4f5a6b7c8d9'' (JStr ''reviewing'') (JStr ''Looks good'')),
         (smtp_up, AppendNote ''64b7f0c2a1d3e4f5a6b7c8d9'' (JStr ''call back'') JUndefined),
         (smtp_up, Cancel ''64b7f0c2a1d3e4f5a6b7c8d9'')]
        (jane_in ''submitted'')) ! 0)) \<and>
   map (\<lambda>r. (status r, map note_text (adminNotes r)))
     (requests (run
        [(smtp_up, Transition ''64b7f0c2a1d3e4f5a6b7c8d9'' (JStr ''reviewing'') (JStr ''Looks good'')),
         (smtp_up, AppendNote ''64b7f0c2a1d3e4f5a6b7c8d9'' (JStr ''call back'') JUndefined),
         (smtp_up, Cancel ''64b7f0c2a1d3e4f5a6b7c8d9'')]
        (jane_in ''submitted'')))
     = [(''cancelled'', [Some ''Looks good'', Some ''call back''])]"
proof -
  let ?ops = "[(smtp_up, Transition ''64b7f0c2a1d3e4f5a6b7c8d9'' (JStr ''reviewing'') (JStr ''Looks good'')),
         (smtp_up, AppendNote ''64b7f0c2a1d3e4f5a6b7c8d9'' (JStr ''call back'') JUndefined),
         (smtp_up, Cancel ''64b7f0c2a1d3e4f5a6b7c8d9'')]"
  have l: "(0::nat) < length (requests (jane_in ''submitted''))"
    and n: "adminNotes (requests (jane_in ''submitted'') ! 0) = []"
    by (simp_all add: jane_in_def jane_def)
  from admin_notes_append_only [of "jane_in ''submitted''" ?ops, THEN conjunct2, rule_format, OF l]
  have p: "prefix (adminNotes (requests (jane_in ''submitted'') ! 0))
             (adminNotes (requests (run ?ops (jane_in ''submitted'')) ! 0))"
    by (rule conjunct2 [THEN conjunct1])
  from l n p history_result show ?thesis by (intro conjI)
qed

subsection \<open>Stored requests are schema-valid\<close>

text \<open>
  The theorems on transitions assume that the stored request passes the schema's
  validators. Every request of a store that the lifecycle operations have built from the
  empty store does: each write is either validated or changes one path to a valid value.
\<close>

lemma replace_first_all:
  "list_all P rs \<Longrightarrow> P d \<Longrightarrow> list_all P (replace_first d rs)"
  by (induction rs) simp_all

lemma find_all: "list_all P rs \<Longrightarrow> find Q rs = Some r \<Longrightarrow> P r"
  by (induction rs) (auto split: if_splits)

lemma schema_errors_updatedAt: "schema_errors (d\<lparr>updatedAt := t\<rparr>) = schema_errors d"
  by (simp add: schema_errors_def)

lemma findByIdAndUpdate_valid:
  assumes "list_all (\<lambda>r. schema_errors r = []) (requests w)"
    and "\<And>r. schema_errors r = [] \<Longrightarrow> check (upd r) = [] \<Longrightarrow> schema_errors (upd r) = []"
    and "findByIdAndUpdate e w i upd check = Inr (res, w')"
  shows "list_all (\<lambda>r. schema_errors r = []) (requests w')"
proof (cases "find (\<lambda>x. oid x = i) (requests w)")
  case None
  with assms(1,3) show ?thesis
    by (simp add: findByIdAndUpdate_def split: if_splits)
next
  case (Some r)
  from find_all [OF assms(1) Some] have "schema_errors r = []" .
  with Some assms show ?thesis
    by (auto simp: findByIdAndUpdate_def replace_first_all schema_errors_updatedAt
          split: if_splits)
qed

lemma step_valid:
  assumes v: "list_all (\<lambda>r. schema_errors r = []) (requests w)"
  shows "list_all (\<lambda>r. schema_errors r = []) (requests (step e op w))"
proof (cases op)
  case (Create b)
  with v show ?thesis
    by (simp add: createRequest_def save_new_def requests_caught Let_def
          split: sum.splits option.splits)
next
  case (Transition i st n)
  with v show ?thesis
    by (simp add: updateRequestStatus_def updateStatus_def save_def requests_caught
          requests_notify replace_first_all Let_def split: sum.splits option.splits)
next
  case (UpdatePriority i p)
  show ?thesis
  proof (cases "findByIdAndUpdate e w i (\<lambda>r. r\<lparr>priority := the_string p\<rparr>)
                  (\<lambda>r. if priority r \<in> set validPriorities then [] else [''priority''])")
    case (Inl err)
    with v UpdatePriority show ?thesis
      by (simp add: updateRequestPriority_def requests_caught)
  next
    case (Inr pr)
    obtain res w' where pr: "pr = (res, w')" by (cases pr)
    have "list_all (\<lambda>r. schema_errors r = []) (requests w')"
      by (rule findByIdAndUpdate_valid [OF v _ Inr [unfolded pr]])
         (simp add: schema_errors_Nil split: if_splits)
    with v UpdatePriority Inr pr show ?thesis
      by (simp add: updateRequestPriority_def split: option.splits)
  qed
next
  case (AppendNote i n b)
  with v show ?thesis
    by (simp add: addAdminNote_def save_def requests_caught replace_first_all Let_def
          split: sum.splits option.splits)
next
  case (Assign i a)
  show ?thesis
  proof (cases "findByIdAndUpdate e w i (\<lambda>r. r\<lparr>assignedTo := cast_string a\<rparr>) (\<lambda>r. [])")
    case (Inl err)
    with v Assign show ?thesis
      by (simp add: assignRequest_def requests_caught)
  next
    case (Inr pr)
    obtain res w' where pr: "pr = (res, w')" by (cases pr)
    have "list_all (\<lambda>r. schema_errors r = []) (requests w')"
      by (rule findByIdAndUpdate_valid [OF v _ Inr [unfolded pr]]) (simp add: schema_errors_Nil)
    with v Assign Inr pr show ?thesis
      by (simp add: assignRequest_def split: option.splits)
  qed
next
  case (Cancel i)
  show ?thesis
  proof (cases "findByIdAndUpdate e w i (\<lambda>r. r\<lparr>status := ''cancelled''\<rparr>) (\<lambda>r. [])")
    case (Inl err)
    with v Cancel show ?thesis
      by (simp add: deleteRequest_def requests_caught)
  next
    case (Inr pr)
    obtain res w' where pr: "pr = (res, w')" by (cases pr)
    have "list_all (\<lambda>r. schema_errors r = []) (requests w')"
      by (rule findByIdAndUpdate_valid [OF v _ Inr [unfolded pr]])
         (simp add: schema_errors_Nil validStatuses_def)
    with v Cancel Inr pr show ?thesis
      by (simp add: deleteRequest_def requests_notify split: option.splits)
  qed
qed

lemma run_valid:
  "list_all (\<lambda>r. schema_errors r = []) (requests w) \<Longrightarrow>
     list_all (\<lambda>r. schema_errors r = []) (requests (run ops w))"
proof (induction ops arbitrary: w)
  case Nil
  then show ?case by simp
next
  case (Cons a ops)
  obtain e op where a: "a = (e, op)" by (cases a)
  from Cons.IH [OF step_valid [OF Cons.prems, of e op]] show ?case by (simp add: a)
qed

lemma reachable_requests_valid:
  "findById e (run ops empty_world) i = Inr (Some r) \<Longrightarrow> schema_errors r = []"
proof -
  assume f: "findById e (run ops empty_world) i = Inr (Some r)"
  have "list_all (\<lambda>r. schema_errors r = []) (requests (run ops empty_world))"
    by (rule run_valid) (simp add: empty_world_def)
  with f show ?thesis by (auto simp: findById_Some dest: find_all)
qed

end
